theory Spec2Isabelle
  imports Complex_Main "HOL-Library.Log_Nat"
begin

chapter \<open>The model\<close>

section \<open>The type \<open>float64\<close>\<close>

text \<open>
  \<open>TotalPage\<close> and \<open>Duration.Seconds\<close> compute in IEEE 754 binary64.  A \<open>float64\<close> is
  modelled by its exact value: a finite number is the rational it denotes, with the
  negative zero, the two infinities and NaN as separate constructors.
\<close>

datatype float64 = Finite rat | NegZero | PosInf | NegInf | NaN

definition pow2 :: "int \<Rightarrow> rat" where
  "pow2 e = (if 0 \<le> e then 2 ^ nat e else 1 / 2 ^ nat (- e))"

text \<open>Round to the nearest integer, ties to even.\<close>

definition rne :: "rat \<Rightarrow> int" where
  "rne y =
     (let f = \<lfloor>y\<rfloor>; d = y - of_int f
      in if d < 1 / 2 then f else if 1 / 2 < d then f + 1 else if even f then f else f + 1)"

text \<open>For \<open>x > 0\<close>, the binary exponent of \<open>x\<close>: the \<open>e\<close> with \<open>2^e \<le> x < 2^(e+1)\<close>.\<close>

definition flog2 :: "rat \<Rightarrow> int" where
  "flog2 x = (if 1 \<le> x then bitlen \<lfloor>x\<rfloor> - 1 else - bitlen (\<lceil>1 / x\<rceil> - 1))"

text \<open>
  Rounding of an exact result to binary64, round-to-nearest-even: 53 significant bits,
  least exponent \<open>-1022\<close> (below it the spacing stays \<open>2^-1074\<close>), overflow to an infinity
  from \<open>2^1024\<close> on.
\<close>

definition f64_overflow :: rat where
  "f64_overflow = 2 ^ 1024"

definition f64_round :: "rat \<Rightarrow> float64" where
  "f64_round x =
     (if x = 0 then Finite 0
      else
        let ax = \<bar>x\<bar>;
            q = pow2 (max (flog2 ax) (- 1022) - 52);
            r = of_int (rne (ax / q)) * q
        in if f64_overflow \<le> r then (if 0 < x then PosInf else NegInf)
           else if r = 0 then (if 0 < x then Finite 0 else NegZero)
           else Finite (if 0 < x then r else - r))"

text \<open>The conversion \<open>float64(n)\<close> of an integer.\<close>

definition float64_of_int64 :: "int \<Rightarrow> float64" where
  "float64_of_int64 n = f64_round (of_int n)"

definition sign_neg :: "float64 \<Rightarrow> bool" where
  "sign_neg f = (case f of Finite r \<Rightarrow> r < 0 | NegZero \<Rightarrow> True | NegInf \<Rightarrow> True | _ \<Rightarrow> False)"

definition is_zero :: "float64 \<Rightarrow> bool" where
  "is_zero f = (f = Finite 0 \<or> f = NegZero)"

definition is_inf :: "float64 \<Rightarrow> bool" where
  "is_inf f = (f = PosInf \<or> f = NegInf)"

definition fval :: "float64 \<Rightarrow> rat" where
  "fval f = (case f of Finite r \<Rightarrow> r | _ \<Rightarrow> 0)"

text \<open>
  The division \<open>x / y\<close> of two \<open>float64\<close>: NaN for a NaN operand, for \<open>Inf / Inf\<close> and for
  \<open>0 / 0\<close>; a signed infinity for a division of a non-zero number by zero; a signed zero
  for a zero numerator or an infinite denominator; the rounded quotient otherwise.  Go
  does not panic on a floating-point division by zero.
\<close>

definition f64_div :: "float64 \<Rightarrow> float64 \<Rightarrow> float64" where
  "f64_div x y =
     (if x = NaN \<or> y = NaN then NaN
      else if is_inf x \<and> is_inf y then NaN
      else if is_zero x \<and> is_zero y then NaN
      else
        let neg = (sign_neg x \<noteq> sign_neg y)
        in if is_inf x \<or> is_zero y then (if neg then NegInf else PosInf)
           else if is_zero x \<or> is_inf y then (if neg then NegZero else Finite 0)
           else f64_round (fval x / fval y))"

text \<open>
  The sum \<open>x + y\<close>: NaN for a NaN operand and for the sum of the two infinities; an
  infinite operand otherwise; the sum of two zeros is the negative zero only when both
  are; the rounded sum otherwise, which is the positive zero when the exact sum is zero.
\<close>

definition f64_add :: "float64 \<Rightarrow> float64 \<Rightarrow> float64" where
  "f64_add x y =
     (if x = NaN \<or> y = NaN then NaN
      else if is_inf x \<and> is_inf y then (if x = y then x else NaN)
      else if is_inf x then x
      else if is_inf y then y
      else if is_zero x \<and> is_zero y then (if x = NegZero \<and> y = NegZero then NegZero else Finite 0)
      else f64_round (fval x + fval y))"

text \<open>\<open>math.Ceil\<close>: the zeros, the infinities and NaN are returned as they are.\<close>

definition Ceil :: "float64 \<Rightarrow> float64" where
  "Ceil f =
     (case f of
        Finite r \<Rightarrow> (let c = \<lceil>r\<rceil> in if c = 0 \<and> r < 0 then NegZero else Finite (of_int c))
      | _ \<Rightarrow> f)"

text \<open>
  The conversion \<open>int64(f)\<close> truncates towards zero.  When the value is not representable
  in \<open>int64\<close> (too large, an infinity or NaN) the Go specification says that the conversion
  succeeds with an implementation-dependent result: the function \<open>impl\<close> is that result.
\<close>

definition int64_of_float64 :: "(float64 \<Rightarrow> int) \<Rightarrow> float64 \<Rightarrow> int" where
  "int64_of_float64 impl f =
     (case f of
        Finite r \<Rightarrow>
          (let t = (if 0 \<le> r then \<lfloor>r\<rfloor> else \<lceil>r\<rceil>)
           in if - (2 ^ 63) \<le> t \<and> t < 2 ^ 63 then t else impl f)
      | NegZero \<Rightarrow> 0
      | _ \<Rightarrow> impl f)"

text \<open>
  On amd64 the conversion is the instruction CVTTSD2SQ, which yields the "integer
  indefinite" value \<open>-2^63\<close> for every operand it cannot represent.
\<close>

definition conv_amd64 :: "float64 \<Rightarrow> int" where
  "conv_amd64 f = - (2 ^ 63)"

section \<open>Pagination (package repository, package dto)\<close>

text \<open>
  The Go function is
  \<^verbatim>\<open>
  func TotalPage(count, perPage int64) int64 {
      totalPage := int64(math.Ceil(float64(count) / float64(perPage)))
      return totalPage
  }
  \<close>
\<close>

definition TotalPage :: "(float64 \<Rightarrow> int) \<Rightarrow> int \<Rightarrow> int \<Rightarrow> int" where
  "TotalPage impl count perPage =
     int64_of_float64 impl (Ceil (f64_div (float64_of_int64 count) (float64_of_int64 perPage)))"

text \<open>
  \<open>TotalPage\<close> has one caller, \<open>GetAllUserWithPagination\<close> of the user repository, which
  fills in the defaults of the request (\<open>Default\<close>, of package dto) before it queries: a
  page of \<open>0\<close> becomes \<open>1\<close> and a page size of \<open>0\<close> becomes \<open>10\<close>.  Its two queries, the count of
  the rows that match and the rows of the page, are parameters, functions of the request;
  the conversion \<open>int64(req.PerPage)\<close> of an \<open>int\<close> keeps the value.
\<close>

record PaginationRequest =
  Search :: string
  Page :: int
  PerPage :: int

definition Default :: "PaginationRequest \<Rightarrow> PaginationRequest" where
  "Default p =
     (let p1 = (if Page p = 0 then p \<lparr> Page := 1 \<rparr> else p)
      in if PerPage p1 = 0 then p1 \<lparr> PerPage := 10 \<rparr> else p1)"

record PaginationResponse =
  res_Page :: int
  res_PerPage :: int
  MaxPage :: int
  Count :: int

record 'u GetAllUserRepositoryResponse =
  Users :: "'u list"
  pagination :: PaginationResponse

definition GetAllUserWithPagination ::
  "(float64 \<Rightarrow> int) \<Rightarrow> (PaginationRequest \<Rightarrow> 'e + int) \<Rightarrow> (PaginationRequest \<Rightarrow> 'e + 'u list)
     \<Rightarrow> PaginationRequest \<Rightarrow> 'e + 'u GetAllUserRepositoryResponse" where
  "GetAllUserWithPagination impl count_query find_query req0 =
     (let req = Default req0
      in case count_query req of
           Inl err \<Rightarrow> Inl err
         | Inr count \<Rightarrow>
             (case find_query req of
                Inl err \<Rightarrow> Inl err
              | Inr found \<Rightarrow>
                  (let totalPage = TotalPage impl count (PerPage req)
                   in Inr \<lparr> Users = found,
                           pagination = \<lparr> res_Page = Page req, res_PerPage = PerPage req,
                                          MaxPage = totalPage, Count = count \<rparr> \<rparr>)))"

text \<open>
  The integration tests carry their own \<open>TotalPage\<close>, in integer arithmetic and with a
  guard for \<open>perPage = 0\<close>:
  \<^verbatim>\<open>
  func TotalPage(count, perPage int64) int64 {
      if perPage == 0 { return 0 }
      return (count + perPage - 1) / perPage
  }
  \<close>
  For the non-negative operands considered here Go's truncating division is \<open>div\<close>.
\<close>

definition TotalPage_test :: "int \<Rightarrow> int \<Rightarrow> int" where
  "TotalPage_test count perPage = (if perPage = 0 then 0 else (count + perPage - 1) div perPage)"


section \<open>Errors\<close>

text \<open>
  A Go \<open>error\<close> is a value with a message.  \<open>ErrorNew msg\<close> is \<open>errors.New(msg)\<close> (and
  \<open>fmt.Errorf\<close> without a wrapped error), an error that is its message: two of them with
  the same message are the same to a caller who reads \<open>err.Error()\<close>.  \<open>Wrap msg e\<close> is
  \<open>fmt.Errorf(msg + ": %w", e)\<close>, and \<open>Unverifiable e\<close> is the validation error in which the
  JWT library returns the error \<open>e\<close> of a key function.
  The other constructors are the error values of the libraries the code calls:
  \<open>encoding/hex\<close>, \<open>crypto/aes\<close>, \<open>crypto/rand\<close>, \<open>gorm\<close> and \<open>golang-jwt\<close>.
\<close>

datatype error =
    ErrorNew string
  | Wrap string error
  | ErrLength
  | InvalidByteError char
  | KeySizeError nat
  | ErrRandRead
  | ErrRecordNotFound
  | ErrDuplicatedKey
  | ErrForeignKeyViolated
  | ErrDatabase
  | ValidationError string
  | Unverifiable error

section \<open>Symmetric token codec (utils/aes.go)\<close>

subsection \<open>Hexadecimal encoding\<close>

text \<open>
  Go strings and byte slices are sequences of bytes; both are \<open>string\<close> here, whose
  characters are bytes.  \<open>Sprintf_x b\<close> is \<open>fmt.Sprintf("%x", b)\<close> for a byte slice: two
  lower-case hexadecimal digits per byte.
\<close>

definition hexdigit :: "nat \<Rightarrow> char" where
  "hexdigit n = char_of (if n < 10 then 48 + n else 87 + n)"

fun Sprintf_x :: "string \<Rightarrow> string" where
  "Sprintf_x [] = []"
| "Sprintf_x (c # cs) =
     hexdigit (of_char c div 16) # hexdigit (of_char c mod 16) # Sprintf_x cs"

text \<open>
  \<open>fromHexChar\<close> of \<open>encoding/hex\<close>: the value of a digit \<open>0-9\<close>, \<open>a-f\<close> or \<open>A-F\<close>.
\<close>

definition fromHexChar :: "char \<Rightarrow> nat option" where
  "fromHexChar c =
     (let n = (of_char c :: nat)
      in if 48 \<le> n \<and> n \<le> 57 then Some (n - 48)
         else if 97 \<le> n \<and> n \<le> 102 then Some (n - 87)
         else if 65 \<le> n \<and> n \<le> 70 then Some (n - 55)
         else None)"

text \<open>
  \<open>hex.DecodeString\<close>: the digits are read in pairs from the left, the first character
  that is no digit gives \<open>InvalidByteError\<close>, and a single trailing digit gives
  \<open>ErrLength\<close>.
\<close>

fun DecodeString :: "string \<Rightarrow> error + string" where
  "DecodeString [] = Inr []"
| "DecodeString [p] =
     (case fromHexChar p of None \<Rightarrow> Inl (InvalidByteError p) | Some a \<Rightarrow> Inl ErrLength)"
| "DecodeString (p # q # r) =
     (case fromHexChar p of
        None \<Rightarrow> Inl (InvalidByteError p)
      | Some a \<Rightarrow>
          (case fromHexChar q of
             None \<Rightarrow> Inl (InvalidByteError q)
           | Some b \<Rightarrow>
               (case DecodeString r of
                  Inl e \<Rightarrow> Inl e
                | Inr bs \<Rightarrow> Inr (char_of (16 * a + b) # bs))))"

subsection \<open>The cipher\<close>

text \<open>
  AES and GCM are Go's standard library (\<open>crypto/aes\<close>, \<open>crypto/cipher\<close>), not code of
  this repository.  The AEAD that \<open>cipher.NewGCM\<close> returns is a parameter of the model: its
  nonce size, \<open>Seal\<close> (nonce, plaintext to ciphertext with tag; the additional data is
  always \<open>nil\<close>) and \<open>Open\<close>.  \<open>Open\<close> returns the plaintext, fails the authentication, or
  panics (as the library does for a nonce of the wrong length).
\<close>

datatype open_result = Opened string | AuthError | OpenPanic

record AEAD =
  NonceSize :: nat
  Seal :: "string \<Rightarrow> string \<Rightarrow> string"
  Open :: "string \<Rightarrow> string \<Rightarrow> open_result"

definition KEY :: string where
  "KEY = ''00112233445566778899aabb00112233445566778899aabb''"

text \<open>\<open>aes.NewCipher\<close> accepts keys of 16, 24 and 32 bytes.\<close>

definition NewCipher :: "string \<Rightarrow> error + string" where
  "NewCipher key =
     (if length key = 16 \<or> length key = 24 \<or> length key = 32 then Inr key
      else Inl (KeySizeError (length key)))"

text \<open>
  \<open>AESEncrypt\<close>.  \<open>gcm\<close> is \<open>cipher.NewGCM\<close> (from the key to the AEAD; it does not fail for
  AES).  \<open>rnd\<close> is the outcome of \<open>io.ReadFull(rand.Reader, nonce)\<close>: \<open>None\<close> when the read
  fails, otherwise the bytes read, by position, so that the nonce has \<open>NonceSize\<close> bytes
  as \<open>make([]byte, aesGCM.NonceSize())\<close> has.  \<open>Seal(nonce, nonce, plaintext, nil)\<close>
  appends the sealed text to its first argument.
\<close>

definition AESEncrypt :: "(string \<Rightarrow> AEAD) \<Rightarrow> (nat \<Rightarrow> char) option \<Rightarrow> string \<Rightarrow> error + string" where
  "AESEncrypt gcm rnd stringToEncrypt =
     (case DecodeString KEY of
        Inl err \<Rightarrow> Inl err
      | Inr key \<Rightarrow>
          (case NewCipher key of
             Inl err \<Rightarrow> Inl err
           | Inr block \<Rightarrow>
               (let aesGCM = gcm block
                in case rnd of
                     None \<Rightarrow> Inl ErrRandRead
                   | Some f \<Rightarrow>
                       (let nonce = map f [0 ..< NonceSize aesGCM];
                            ciphertext = nonce @ Seal aesGCM nonce stringToEncrypt
                        in Inr (Sprintf_x ciphertext)))))"

text \<open>
  \<open>AESDecrypt\<close>.  The body either returns or panics; the deferred function recovers a
  panic and makes the result \<open>("", errors.New("ciphertext too short"))\<close>.
\<close>

datatype 'a outcome = Returned 'a | Panicked

definition AESDecrypt_body :: "(string \<Rightarrow> AEAD) \<Rightarrow> string \<Rightarrow> (error + string) outcome" where
  "AESDecrypt_body gcm encryptedString =
     (case DecodeString KEY of
        Inl err \<Rightarrow> Returned (Inl (ErrorNew ''error in decoding key''))
      | Inr key \<Rightarrow>
          (case DecodeString encryptedString of
             Inl err \<Rightarrow> Returned (Inl (ErrorNew ''error in decoding encrypted string''))
           | Inr enc \<Rightarrow>
               (case NewCipher key of
                  Inl err \<Rightarrow> Returned (Inl err)
                | Inr block \<Rightarrow>
                    (let aesGCM = gcm block; nonceSize = NonceSize aesGCM
                     in if length enc < nonceSize
                        then Returned (Inl (ErrorNew ''ciphertext too short''))
                        else
                          (case Open aesGCM (take nonceSize enc) (drop nonceSize enc) of
                             Opened plaintext \<Rightarrow> Returned (Inr plaintext)
                           | AuthError \<Rightarrow> Returned (Inl (ErrorNew ''error decrypting''))
                           | OpenPanic \<Rightarrow> Panicked)))))"

definition AESDecrypt :: "(string \<Rightarrow> AEAD) \<Rightarrow> string \<Rightarrow> error + string" where
  "AESDecrypt gcm encryptedString =
     (case AESDecrypt_body gcm encryptedString of
        Returned r \<Rightarrow> r
      | Panicked \<Rightarrow> Inl (ErrorNew ''ciphertext too short''))"

text \<open>
  The key that \<open>KEY\<close> encodes, and two AEADs to run the model on.  \<open>demo_gcm\<close> has the
  shape of GCM (a 12-byte nonce, a tag after the ciphertext, a check of the tag on
  \<open>Open\<close>) without its cryptography: the sealed text is the plaintext followed by the
  nonce.  \<open>panic_gcm\<close> is the same with an \<open>Open\<close> that always panics.
\<close>

definition key_bytes :: string where
  "key_bytes = map char_of
     [0x00, 0x11, 0x22, 0x33, 0x44, 0x55, 0x66, 0x77, 0x88, 0x99, 0xaa, 0xbb,
      0x00, 0x11, 0x22, 0x33, 0x44, 0x55, 0x66, 0x77, 0x88, 0x99, 0xaa, 0xbb :: nat]"

definition demo_gcm :: "string \<Rightarrow> AEAD" where
  "demo_gcm key =
     \<lparr> NonceSize = 12,
       Seal = (\<lambda>nonce plaintext. plaintext @ nonce),
       Open = (\<lambda>nonce ct.
         if length ct < length nonce then AuthError
         else if drop (length ct - length nonce) ct = nonce
         then Opened (take (length ct - length nonce) ct)
         else AuthError) \<rparr>"

definition panic_gcm :: "string \<Rightarrow> AEAD" where
  "panic_gcm key = (demo_gcm key) \<lparr> Open := (\<lambda>nonce ct. OpenPanic) \<rparr>"

section \<open>Entities and the store\<close>

text \<open>
  Instants (\<open>time.Time\<close>) are integers: nanoseconds since the Unix epoch.  A UUID is the
  string that \<open>String()\<close> gives.  \<open>User\<close> is \<open>entity.User\<close> with the \<open>DeletedAt\<close> of its
  \<open>Timestamp\<close> (gorm's soft delete: a row with a \<open>DeletedAt\<close> is invisible to queries);
  \<open>RefreshToken\<close> is \<open>entity.RefreshToken\<close>.  The creation and update timestamps, and the
  primary key of a refresh token that the database generates, take part in no operation
  modelled here and are left out.  A row keeps the instant \<open>ExpiresAt\<close> as it is given: the
  rounding of a timestamp by the database, to the microsecond in PostgreSQL, is not
  modelled.
\<close>

record User =
  ID :: string
  Name :: string
  Email :: string
  TelpNumber :: string
  Password :: string
  Role :: string
  ImageUrl :: string
  IsVerified :: bool
  DeletedAt :: "int option"

record RefreshToken =
  UserID :: string
  Token :: string
  ExpiresAt :: int

text \<open>The two tables of the database.\<close>

record DB =
  users :: "User list"
  refresh_tokens :: "RefreshToken list"

text \<open>
  Every call of a repository method returns gorm's error when the database reports one.
  Besides the errors that the data determine (no row found, a duplicate token, a missing
  user), the database can fail on any call: \<open>fault c\<close> is the error it reports for the
  call \<open>c\<close>, if any.  Within one call of a service method each repository method is
  called at most once, so one entry per method describes every failure pattern.
\<close>

datatype db_call =
    Call_GetUserById | Call_GetUserByEmail | Call_CheckEmail | Call_Update
  | Call_Create | Call_FindByToken | Call_DeleteByUserID | Call_DeleteByToken
  | Call_CreateRefreshToken | Call_GetRefreshToken | Call_DeleteRefreshToken
  | Call_DeleteRefreshTokensByUserID
  | Call_Commit

type_synonym faults = "db_call \<Rightarrow> error option"

subsection \<open>repository/user_repository.go\<close>

definition visible :: "User \<Rightarrow> bool" where
  "visible u = (DeletedAt u = None)"

definition GetUserById :: "faults \<Rightarrow> DB \<Rightarrow> string \<Rightarrow> error + User" where
  "GetUserById fault tx userId =
     (case fault Call_GetUserById of
        Some err \<Rightarrow> Inl err
      | None \<Rightarrow>
          (case find (\<lambda>u. ID u = userId \<and> visible u) (users tx) of
             None \<Rightarrow> Inl ErrRecordNotFound
           | Some user \<Rightarrow> Inr user))"

definition GetUserByEmail :: "faults \<Rightarrow> DB \<Rightarrow> string \<Rightarrow> error + User" where
  "GetUserByEmail fault tx email =
     (case fault Call_GetUserByEmail of
        Some err \<Rightarrow> Inl err
      | None \<Rightarrow>
          (case find (\<lambda>u. Email u = email \<and> visible u) (users tx) of
             None \<Rightarrow> Inl ErrRecordNotFound
           | Some user \<Rightarrow> Inr user))"

text \<open>
  \<open>CheckEmail\<close> returns \<open>(user, true, nil)\<close> or \<open>(User{}, false, err)\<close>: the flag is true
  exactly when there is no error, so the result is a sum.
\<close>

definition CheckEmail :: "faults \<Rightarrow> DB \<Rightarrow> string \<Rightarrow> error + User" where
  "CheckEmail fault tx email =
     (case fault Call_CheckEmail of
        Some err \<Rightarrow> Inl err
      | None \<Rightarrow>
          (case find (\<lambda>u. Email u = email \<and> visible u) (users tx) of
             None \<Rightarrow> Inl ErrRecordNotFound
           | Some user \<Rightarrow> Inr user))"

text \<open>
  \<open>Update\<close> is gorm's \<open>Updates(&user)\<close>: the row with the primary key of \<open>user\<close> gets the
  non-zero fields of \<open>user\<close> (a \<open>false\<close> and an empty string are zero and change nothing),
  the password hashed by the \<open>BeforeUpdate\<close> hook (\<open>hash\<close> is \<open>helpers.HashPassword\<close>, that
  is bcrypt).  The struct that was passed in is returned, with the hashed password.
\<close>

definition merge_user :: "User \<Rightarrow> User \<Rightarrow> User" where
  "merge_user new old =
     old \<lparr> Name := (if Name new = [] then Name old else Name new),
           Email := (if Email new = [] then Email old else Email new),
           TelpNumber := (if TelpNumber new = [] then TelpNumber old else TelpNumber new),
           Password := (if Password new = [] then Password old else Password new),
           Role := (if Role new = [] then Role old else Role new),
           ImageUrl := (if ImageUrl new = [] then ImageUrl old else ImageUrl new),
           IsVerified := (if IsVerified new then True else IsVerified old) \<rparr>"

definition Update :: "faults \<Rightarrow> (string \<Rightarrow> error + string) \<Rightarrow> DB \<Rightarrow> User \<Rightarrow> error + (DB \<times> User)" where
  "Update fault hash tx user =
     (case (if Password user = [] then Inr [] else hash (Password user)) of
        Inl err \<Rightarrow> Inl err
      | Inr hashed \<Rightarrow>
          (case fault Call_Update of
             Some err \<Rightarrow> Inl err
           | None \<Rightarrow>
               (let user' = user \<lparr> Password := hashed \<rparr>
                in Inr (tx \<lparr> users :=
                          map (\<lambda>u. if ID u = ID user \<and> visible u then merge_user user' u else u)
                            (users tx) \<rparr>,
                        user'))))"

subsection \<open>repository/refresh_token_repository.go\<close>

text \<open>
  An insert fails when the token string is already stored (the column has a unique
  index) or when no row of \<open>users\<close> has the \<open>UserID\<close> (the foreign key).
\<close>

definition insert_token :: "DB \<Rightarrow> RefreshToken \<Rightarrow> error + DB" where
  "insert_token tx token =
     (if Token token \<in> Token ` set (refresh_tokens tx) then Inl ErrDuplicatedKey
      else if UserID token \<notin> ID ` set (users tx) then Inl ErrForeignKeyViolated
      else Inr (tx \<lparr> refresh_tokens := refresh_tokens tx @ [token] \<rparr>))"

definition Create :: "faults \<Rightarrow> DB \<Rightarrow> RefreshToken \<Rightarrow> error + DB" where
  "Create fault tx token =
     (case fault Call_Create of Some err \<Rightarrow> Inl err | None \<Rightarrow> insert_token tx token)"

definition FindByToken :: "faults \<Rightarrow> DB \<Rightarrow> string \<Rightarrow> error + RefreshToken" where
  "FindByToken fault tx token =
     (case fault Call_FindByToken of
        Some err \<Rightarrow> Inl err
      | None \<Rightarrow>
          (case find (\<lambda>t. Token t = token) (refresh_tokens tx) of
             None \<Rightarrow> Inl ErrRecordNotFound
           | Some refreshToken \<Rightarrow> Inr refreshToken))"

definition DeleteByUserID :: "faults \<Rightarrow> DB \<Rightarrow> string \<Rightarrow> error + DB" where
  "DeleteByUserID fault tx userID =
     (case fault Call_DeleteByUserID of
        Some err \<Rightarrow> Inl err
      | None \<Rightarrow> Inr (tx \<lparr> refresh_tokens := filter (\<lambda>t. UserID t \<noteq> userID) (refresh_tokens tx) \<rparr>))"

definition DeleteByToken :: "faults \<Rightarrow> DB \<Rightarrow> string \<Rightarrow> error + DB" where
  "DeleteByToken fault tx token =
     (case fault Call_DeleteByToken of
        Some err \<Rightarrow> Inl err
      | None \<Rightarrow> Inr (tx \<lparr> refresh_tokens := filter (\<lambda>t. Token t \<noteq> token) (refresh_tokens tx) \<rparr>))"

subsection \<open>repository/token_repository.go\<close>

definition CreateRefreshToken :: "faults \<Rightarrow> DB \<Rightarrow> RefreshToken \<Rightarrow> error + DB" where
  "CreateRefreshToken fault tx token =
     (case fault Call_CreateRefreshToken of Some err \<Rightarrow> Inl err | None \<Rightarrow> insert_token tx token)"

definition GetRefreshToken :: "faults \<Rightarrow> DB \<Rightarrow> string \<Rightarrow> error + RefreshToken" where
  "GetRefreshToken fault tx token =
     (case fault Call_GetRefreshToken of
        Some err \<Rightarrow> Inl err
      | None \<Rightarrow>
          (case find (\<lambda>t. Token t = token) (refresh_tokens tx) of
             None \<Rightarrow> Inl ErrRecordNotFound
           | Some refreshToken \<Rightarrow> Inr refreshToken))"

definition DeleteRefreshToken :: "faults \<Rightarrow> DB \<Rightarrow> string \<Rightarrow> error + DB" where
  "DeleteRefreshToken fault tx token =
     (case fault Call_DeleteRefreshToken of
        Some err \<Rightarrow> Inl err
      | None \<Rightarrow> Inr (tx \<lparr> refresh_tokens := filter (\<lambda>t. Token t \<noteq> token) (refresh_tokens tx) \<rparr>))"

definition DeleteRefreshTokensByUserID :: "faults \<Rightarrow> DB \<Rightarrow> string \<Rightarrow> error + DB" where
  "DeleteRefreshTokensByUserID fault tx userID =
     (case fault Call_DeleteRefreshTokensByUserID of
        Some err \<Rightarrow> Inl err
      | None \<Rightarrow> Inr (tx \<lparr> refresh_tokens := filter (\<lambda>t. UserID t \<noteq> userID) (refresh_tokens tx) \<rparr>))"

text \<open>
  A refresh token is findable in a store when a query by its string returns a row
  (\<open>FindByToken\<close> and \<open>GetRefreshToken\<close> without a failure of the database).
\<close>

definition findable :: "DB \<Rightarrow> string \<Rightarrow> bool" where
  "findable db token = (find (\<lambda>t. Token t = token) (refresh_tokens db) \<noteq> None)"


section \<open>The world outside the repository\<close>

text \<open>
  What the services take from outside the repository's code, as one record: the clock and
  the two functions of package \<open>time\<close> that the code calls with the layout
  \<open>"2006-01-02 15:04:05"\<close> (\<open>Format\<close>, and \<open>Parse\<close>, which fails on a string that does not
  have the layout), the AEAD and the random source, the failures of the database, bcrypt
  (\<open>bcrypt_compare hash password\<close> is the error of \<open>CompareHashAndPassword\<close>, if any;
  \<open>bcrypt_hash\<close> is \<open>GenerateFromPassword\<close> at cost 4), base64, the UUID generator, and the
  rendering of the mail template (finding the project root, reading the file, parsing and
  executing the template).

  An instant (\<open>time.Time\<close>) is modelled by its count of nanoseconds since the Unix epoch, an
  integer without bound: \<open>time.Time\<close> keeps the seconds in 64 bits and the nanoseconds
  apart, so that \<open>t.Add(d)\<close> is the exact sum and \<open>t.After(u)\<close> is \<open>u < t\<close>.  The clock
  is read with \<open>time.Now()\<close>, and a function may read it more than once: \<open>Now w n\<close> is the
  reading number \<open>n\<close>, counted from \<open>0\<close>, that the function makes during one call.  Nothing
  is assumed of the readings, not even that they grow.
\<close>

record World =
  Now :: "nat \<Rightarrow> int"
  Format :: "int \<Rightarrow> string"
  Parse :: "string \<Rightarrow> int option"
  NewGCM :: "string \<Rightarrow> AEAD"
  rand_Reader :: "(nat \<Rightarrow> char) option"
  db_fault :: faults
  bcrypt_compare :: "string \<Rightarrow> string \<Rightarrow> error option"
  bcrypt_hash :: "string \<Rightarrow> error + string"
  base64 :: "string \<Rightarrow> string"
  new_uuid :: string
  render_mail :: "string \<Rightarrow> string \<Rightarrow> error + string"

text \<open>
  A \<open>time.Duration\<close> is an \<open>int64\<close> count of nanoseconds.  The product of a duration and a
  value read at run time wraps around like every \<open>int64\<close> product (\<open>wrap_int64\<close>); the
  products of constants (\<open>time.Hour * 24\<close>) are computed exactly by the compiler and are in
  range.  \<open>t.Sub(u)\<close> is the difference of two instants as a duration, and saturates at the
  ends of \<open>int64\<close>.
\<close>

definition Second :: int where
  "Second = 1000000000"

definition Minute :: int where
  "Minute = 60000000000"

definition Hour :: int where
  "Hour = 3600000000000"

definition wrap_int64 :: "int \<Rightarrow> int" where
  "wrap_int64 x = (x + 2 ^ 63) mod 2 ^ 64 - 2 ^ 63"

definition Sub :: "int \<Rightarrow> int \<Rightarrow> int" where
  "Sub t u = max (- (2 ^ 63)) (min (2 ^ 63 - 1) (t - u))"

text \<open>
  Go's integer division truncates towards zero, and the remainder has the sign of the
  dividend.  \<open>d.Seconds()\<close> is
  \<^verbatim>\<open>
  sec := d / Second
  nsec := d % Second
  return float64(sec) + float64(nsec)/1e9
  \<close>
\<close>

definition quot :: "int \<Rightarrow> int \<Rightarrow> int" where
  "quot a b = sgn a * sgn b * (\<bar>a\<bar> div \<bar>b\<bar>)"

definition rem :: "int \<Rightarrow> int \<Rightarrow> int" where
  "rem a b = a - b * quot a b"

definition Seconds :: "int \<Rightarrow> float64" where
  "Seconds d =
     (let sec = quot d Second;
          nsec = rem d Second
      in f64_add (float64_of_int64 sec) (f64_div (float64_of_int64 nsec) (Finite 1000000000)))"

text \<open>The zero \<open>time.Time{}\<close>: 1 January of year 1, 00:00:00 UTC.\<close>

definition zero_time :: int where
  "zero_time = - 62135596800000000000"

subsection \<open>helpers/password.go\<close>

definition HashPassword :: "World \<Rightarrow> string \<Rightarrow> error + string" where
  "HashPassword w password = bcrypt_hash w password"

definition CheckPassword :: "World \<Rightarrow> string \<Rightarrow> string \<Rightarrow> bool \<times> error option" where
  "CheckPassword w hashPassword plainPassword =
     (case bcrypt_compare w hashPassword plainPassword of
        Some err \<Rightarrow> (False, Some err)
      | None \<Rightarrow> (True, None))"

section \<open>Strings\<close>

text \<open>
  \<open>strings.Split(s, sep)\<close> for a separator of one byte, which is how the code calls it
  (\<open>"_"\<close> and \<open>"."\<close>): the substrings between the separators, one more than there are
  separators.  \<open>strings.Contains(s, sep)\<close> for such a separator is \<open>sep \<in> set s\<close>.
\<close>

fun Split :: "string \<Rightarrow> char \<Rightarrow> string list" where
  "Split [] sep = [[]]"
| "Split (c # cs) sep =
     (if c = sep then [] # Split cs sep
      else (case Split cs sep of [] \<Rightarrow> [[c]] | p # ps \<Rightarrow> (c # p) # ps))"

section \<open>The errors and messages of package dto\<close>

text \<open>The errors of dto/user_dto.go that the methods modelled here return.\<close>

definition ErrUpdateUser :: error where "ErrUpdateUser = ErrorNew ''failed to update user''"
definition ErrUserNotFound :: error where "ErrUserNotFound = ErrorNew ''user not found''"
definition ErrEmailNotFound :: error where "ErrEmailNotFound = ErrorNew ''email not found''"
definition ErrTokenInvalid :: error where "ErrTokenInvalid = ErrorNew ''token invalid''"
definition ErrTokenExpired :: error where "ErrTokenExpired = ErrorNew ''token expired''"
definition ErrAccountAlreadyVerified :: error where
  "ErrAccountAlreadyVerified = ErrorNew ''account already verified''"

text \<open>dto/auth_dto.go, as the user service sees it, and as the auth service sees it.\<close>

definition MESSAGE_FAILED_INVALID_REFRESH_TOKEN :: string where
  "MESSAGE_FAILED_INVALID_REFRESH_TOKEN = ''Invalid refresh token''"
definition MESSAGE_FAILED_EXPIRED_REFRESH_TOKEN :: string where
  "MESSAGE_FAILED_EXPIRED_REFRESH_TOKEN = ''Refresh token has expired''"
definition ErrInvalidRefreshToken :: error where
  "ErrInvalidRefreshToken = ErrorNew ''invalid refresh token''"
definition ErrExpiredRefreshToken :: error where
  "ErrExpiredRefreshToken = ErrorNew ''refresh token has expired''"

text \<open>
  The auth service returns \<open>dto.ErrAccountNotVerified\<close> and \<open>dto.ErrPasswordNotMatch\<close>, which
  no file of the sources declares: they are parameters.
\<close>

record dto_undeclared =
  ErrAccountNotVerified :: error
  ErrPasswordNotMatch :: error

record UserLoginRequest =
  req_Email :: string
  req_Password :: string

text \<open>
  \<open>dto.TokenResponse\<close> of the user service (with \<open>Role\<close>) and of the auth service (with
  \<open>ExpiresIn\<close> and \<open>TokenType\<close>).
\<close>

record TokenResponse =
  AccessToken :: string
  RefreshToken_str :: string
  resp_Role :: string

record AuthTokenResponse =
  auth_AccessToken :: string
  auth_RefreshToken :: string
  ExpiresIn :: int
  TokenType :: string

record VerifyEmailResponse =
  resp_Email :: string
  resp_IsVerified :: bool

definition no_response :: VerifyEmailResponse where
  "no_response = \<lparr> resp_Email = [], resp_IsVerified = False \<rparr>"

section \<open>The user service (package service)\<close>

text \<open>
  The service holds a \<open>JWTService\<close>, an interface: any implementation can stand behind it.
  \<open>GenerateRefreshToken\<close> gives the token string and its expiry.
\<close>

record JWTService =
  GenerateAccessToken :: "string \<Rightarrow> string \<Rightarrow> string"
  GenerateRefreshToken :: "string \<times> int"

definition LOCAL_URL :: string where
  "LOCAL_URL = ''http://localhost:3000''"

definition VERIFY_EMAIL_ROUTE :: string where
  "VERIFY_EMAIL_ROUTE = ''register/verify_email''"

text \<open>
  \<open>makeVerificationEmail\<close>.  Its first three lines build the token: the text
  \<open>receiverEmail + "_" + expired\<close>, encrypted.  They are \<open>verification_token\<close>.
\<close>

definition verification_plaintext :: "World \<Rightarrow> string \<Rightarrow> string" where
  "verification_plaintext w receiverEmail =
     (let expired = Format w (Now w 0 + Hour * 24)
      in receiverEmail @ ''_'' @ expired)"

definition verification_token :: "World \<Rightarrow> string \<Rightarrow> error + string" where
  "verification_token w receiverEmail =
     AESEncrypt (NewGCM w) (rand_Reader w) (verification_plaintext w receiverEmail)"

record draft_email =
  subject :: string
  body :: string

definition makeVerificationEmail :: "World \<Rightarrow> string \<Rightarrow> error + draft_email" where
  "makeVerificationEmail w receiverEmail =
     (case verification_token w receiverEmail of
        Inl err \<Rightarrow> Inl err
      | Inr token \<Rightarrow>
          (let verifyLink = LOCAL_URL @ ''/'' @ VERIFY_EMAIL_ROUTE @ ''?token='' @ token
           in case render_mail w receiverEmail verifyLink of
                Inl err \<Rightarrow> Inl err
              | Inr strMail \<Rightarrow>
                  Inr \<lparr> subject = ''Cakno - Go Gin Template'', body = strMail \<rparr>))"

text \<open>
  \<open>VerifyEmail\<close> returns a response and an error, and both are set when the token has
  expired; the result is the new store, the response and the error (\<open>None\<close> is \<open>nil\<close>).
  It reads the clock once.
  The index \<open>1\<close> of the split is in range: the text contains the separator.
\<close>

definition VerifyEmail :: "World \<Rightarrow> DB \<Rightarrow> string \<Rightarrow> DB \<times> VerifyEmailResponse \<times> error option" where
  "VerifyEmail w db token =
     (case AESDecrypt (NewGCM w) token of
        Inl err \<Rightarrow> (db, no_response, Some ErrTokenInvalid)
      | Inr decryptedToken \<Rightarrow>
          if CHR ''_'' \<notin> set decryptedToken then (db, no_response, Some ErrTokenInvalid)
          else
            (let decryptedTokenSplit = Split decryptedToken CHR ''_'';
                 email = decryptedTokenSplit ! 0;
                 expired = decryptedTokenSplit ! 1
             in case Parse w expired of
                  None \<Rightarrow> (db, no_response, Some ErrTokenInvalid)
                | Some expiredTime \<Rightarrow>
                    if Sub expiredTime (Now w 0) < 0
                    then (db, \<lparr> resp_Email = email, resp_IsVerified = False \<rparr>, Some ErrTokenExpired)
                    else
                      (case GetUserByEmail (db_fault w) db email of
                         Inl err \<Rightarrow> (db, no_response, Some ErrUserNotFound)
                       | Inr user \<Rightarrow>
                           if IsVerified user
                           then (db, no_response, Some ErrAccountAlreadyVerified)
                           else
                             (case Update (db_fault w) (HashPassword w) db
                                     \<lparr> ID = ID user, Name = [], Email = [], TelpNumber = [],
                                       Password = [], Role = [], ImageUrl = [],
                                       IsVerified = True, DeletedAt = None \<rparr> of
                                Inl err \<Rightarrow> (db, no_response, Some ErrUpdateUser)
                              | Inr (db', updatedUser) \<Rightarrow>
                                  (db', \<lparr> resp_Email = email,
                                          resp_IsVerified = IsVerified updatedUser \<rparr>, None)))))"

text \<open>
  \<open>Verify\<close> (the login) and \<open>RefreshToken\<close> run in a transaction: \<open>tx\<close> is the state inside
  the transaction, which starts as the stored state; \<open>Rollback\<close> leaves the stored state as
  it was, and so does a \<open>Commit\<close> that fails; a \<open>Commit\<close> that succeeds makes the state of
  the transaction the stored state.
\<close>

definition userService_Verify ::
  "World \<Rightarrow> JWTService \<Rightarrow> DB \<Rightarrow> UserLoginRequest \<Rightarrow> DB \<times> (error + TokenResponse)" where
  "userService_Verify w jwtService db req =
     (let tx = db
      in case GetUserByEmail (db_fault w) tx (req_Email req) of
           Inl err \<Rightarrow> (db, Inl (ErrorNew ''invalid email or password''))
         | Inr user \<Rightarrow>
             (case CheckPassword w (Password user) (req_Password req) of
                (checkPassword, err) \<Rightarrow>
                  if err \<noteq> None \<or> \<not> checkPassword
                  then (db, Inl (ErrorNew ''invalid email or password''))
                  else
                    (let accessToken = GenerateAccessToken jwtService (ID user) (Role user);
                         (refreshTokenString, expiresAt) = GenerateRefreshToken jwtService
                     in case DeleteByUserID (db_fault w) tx (ID user) of
                          Inl err \<Rightarrow> (db, Inl err)
                        | Inr tx1 \<Rightarrow>
                            (case Create (db_fault w) tx1
                                    \<lparr> UserID = ID user, Token = refreshTokenString,
                                      ExpiresAt = expiresAt \<rparr> of
                               Inl err \<Rightarrow> (db, Inl err)
                             | Inr tx2 \<Rightarrow>
                                 (case db_fault w Call_Commit of
                                    Some err \<Rightarrow> (db, Inl err)
                                  | None \<Rightarrow>
                                      (tx2, Inr \<lparr> AccessToken = accessToken,
                                                 RefreshToken_str = refreshTokenString,
                                                 resp_Role = Role user \<rparr>))))))"

definition userService_RefreshToken ::
  "World \<Rightarrow> JWTService \<Rightarrow> DB \<Rightarrow> string \<Rightarrow> DB \<times> (error + TokenResponse)" where
  "userService_RefreshToken w jwtService db req_RefreshToken =
     (let tx = db
      in case FindByToken (db_fault w) tx req_RefreshToken of
           Inl err \<Rightarrow> (db, Inl (ErrorNew MESSAGE_FAILED_INVALID_REFRESH_TOKEN))
         | Inr dbToken \<Rightarrow>
             if ExpiresAt dbToken < Now w 0
             then (db, Inl (ErrorNew MESSAGE_FAILED_EXPIRED_REFRESH_TOKEN))
             else
               (case GetUserById (db_fault w) tx (UserID dbToken) of
                  Inl err \<Rightarrow> (db, Inl ErrUserNotFound)
                | Inr user \<Rightarrow>
                    (let accessToken = GenerateAccessToken jwtService (ID user) (Role user);
                         (refreshTokenString, expiresAt) = GenerateRefreshToken jwtService
                     in case DeleteByUserID (db_fault w) tx (ID user) of
                          Inl err \<Rightarrow> (db, Inl err)
                        | Inr tx1 \<Rightarrow>
                            (case Create (db_fault w) tx1
                                    \<lparr> UserID = ID user, Token = refreshTokenString,
                                      ExpiresAt = expiresAt \<rparr> of
                               Inl err \<Rightarrow> (db, Inl err)
                             | Inr tx2 \<Rightarrow>
                                 (case db_fault w Call_Commit of
                                    Some err \<Rightarrow> (db, Inl err)
                                  | None \<Rightarrow>
                                      (tx2, Inr \<lparr> AccessToken = accessToken,
                                                 RefreshToken_str = refreshTokenString,
                                                 resp_Role = Role user \<rparr>))))))"

section \<open>The auth service (service/auth_service.go)\<close>

text \<open>
  The auth service holds a \<open>JWTService\<close> whose \<open>GenerateAccessToken\<close> returns the token, the
  seconds until it expires, and an error; and the configuration.  It passes \<open>nil\<close> for the
  transaction, so every repository call works on the stored state at once.  The results
  of the calls written \<open>_ = ...\<close> are dropped: when such a call fails the store is as it was
  and the method goes on.  \<open>RefreshTokenExpiry\<close> is a number of hours, an \<open>int\<close>, and the expiry
  of a new refresh token is \<open>time.Now().Add(time.Hour * time.Duration(RefreshTokenExpiry))\<close>,
  an \<open>int64\<close> product.  \<open>Login\<close> reads the clock once; \<open>RefreshToken\<close> reads it for the test
  of the expiry and, when it rotates, once more for the expiry of the new token.
\<close>

record JWTConfig =
  SecretKey :: string
  Issuer :: string
  RefreshTokenExpiry :: int
  RotateRefreshToken :: bool

type_synonym GenerateAccessToken3 = "string \<Rightarrow> string \<Rightarrow> error + (string \<times> int)"

definition drop_error :: "DB \<Rightarrow> error + DB \<Rightarrow> DB" where
  "drop_error db r = (case r of Inl err \<Rightarrow> db | Inr db' \<Rightarrow> db')"

definition authService_Login ::
  "World \<Rightarrow> dto_undeclared \<Rightarrow> GenerateAccessToken3 \<Rightarrow> JWTConfig \<Rightarrow> DB \<Rightarrow> UserLoginRequest
     \<Rightarrow> DB \<times> (error + AuthTokenResponse)" where
  "authService_Login w dto generateAccessToken config db req =
     (case CheckEmail (db_fault w) db (req_Email req) of
        Inl err \<Rightarrow> (db, Inl ErrEmailNotFound)
      | Inr user \<Rightarrow>
          if \<not> IsVerified user then (db, Inl (ErrAccountNotVerified dto))
          else
            (case CheckPassword w (Password user) (req_Password req) of
               (checkPassword, err) \<Rightarrow>
                 if err \<noteq> None \<or> \<not> checkPassword then (db, Inl (ErrPasswordNotMatch dto))
                 else
                   (case generateAccessToken (ID user) (Role user) of
                      Inl err \<Rightarrow> (db, Inl err)
                    | Inr (accessToken, expiresIn) \<Rightarrow>
                        (let refreshToken = new_uuid w;
                             refreshTokenExpiry =
                               Now w 0 + wrap_int64 (Hour * RefreshTokenExpiry config);
                             refreshTokenEntity =
                               \<lparr> UserID = ID user, Token = refreshToken,
                                 ExpiresAt = refreshTokenExpiry \<rparr>;
                             db1 = drop_error db (DeleteRefreshTokensByUserID (db_fault w) db (ID user))
                         in case CreateRefreshToken (db_fault w) db1 refreshTokenEntity of
                              Inl err \<Rightarrow> (db1, Inl err)
                            | Inr db2 \<Rightarrow>
                                (db2, Inr \<lparr> auth_AccessToken = accessToken,
                                           auth_RefreshToken = refreshToken,
                                           ExpiresIn = expiresIn,
                                           TokenType = ''Bearer'' \<rparr>)))))"

definition authService_RefreshToken ::
  "World \<Rightarrow> GenerateAccessToken3 \<Rightarrow> JWTConfig \<Rightarrow> DB \<Rightarrow> string
     \<Rightarrow> DB \<times> (error + AuthTokenResponse)" where
  "authService_RefreshToken w generateAccessToken config db req_RefreshToken =
     (case GetRefreshToken (db_fault w) db req_RefreshToken of
        Inl err \<Rightarrow> (db, Inl ErrInvalidRefreshToken)
      | Inr storedToken \<Rightarrow>
          if ExpiresAt storedToken < Now w 0
          then (drop_error db (DeleteRefreshToken (db_fault w) db req_RefreshToken),
                Inl ErrExpiredRefreshToken)
          else
            (case GetUserById (db_fault w) db (UserID storedToken) of
               Inl err \<Rightarrow> (db, Inl ErrUserNotFound)
             | Inr user \<Rightarrow>
                 (case generateAccessToken (ID user) (Role user) of
                    Inl err \<Rightarrow> (db, Inl err)
                  | Inr (accessToken, expiresIn) \<Rightarrow>
                      if RotateRefreshToken config
                      then
                        (let db1 = drop_error db (DeleteRefreshToken (db_fault w) db req_RefreshToken);
                             newRefreshToken = new_uuid w;
                             refreshTokenExpiry =
                               Now w 1 + wrap_int64 (Hour * RefreshTokenExpiry config);
                             newRefreshTokenEntity =
                               \<lparr> UserID = ID user, Token = newRefreshToken,
                                 ExpiresAt = refreshTokenExpiry \<rparr>
                         in case CreateRefreshToken (db_fault w) db1 newRefreshTokenEntity of
                              Inl err \<Rightarrow> (db1, Inl err)
                            | Inr db2 \<Rightarrow>
                                (db2, Inr \<lparr> auth_AccessToken = accessToken,
                                           auth_RefreshToken = newRefreshToken,
                                           ExpiresIn = expiresIn,
                                           TokenType = ''Bearer'' \<rparr>))
                      else
                        (db, Inr \<lparr> auth_AccessToken = accessToken,
                                  auth_RefreshToken = req_RefreshToken,
                                  ExpiresIn = expiresIn,
                                  TokenType = ''Bearer'' \<rparr>))))"


section \<open>A concrete world\<close>

text \<open>
  To run the model on concrete inputs the parameters need values.  \<open>demo_Format\<close> and
  \<open>demo_Parse\<close> print and read the layout \<open>"2006-01-02 15:04:05"\<close> in UTC, for the years 0 to
  9999: \<open>demo_Parse\<close> accepts exactly the strings of 19 characters with digits and
  separators in their places and every field in its range, all of which Go's
  \<open>time.Parse\<close> accepts with the same result.
\<close>

definition days_from_civil :: "int \<Rightarrow> int \<Rightarrow> int \<Rightarrow> int" where
  "days_from_civil y m d =
     (let y' = (if m \<le> 2 then y - 1 else y);
          era = y' div 400;
          yoe = y' - era * 400;
          doy = (153 * (if 2 < m then m - 3 else m + 9) + 2) div 5 + d - 1;
          doe = yoe * 365 + yoe div 4 - yoe div 100 + doy
      in era * 146097 + doe - 719468)"

definition civil_from_days :: "int \<Rightarrow> int \<times> int \<times> int" where
  "civil_from_days z0 =
     (let z = z0 + 719468;
          era = z div 146097;
          doe = z - era * 146097;
          yoe = (doe - doe div 1460 + doe div 36524 - doe div 146096) div 365;
          doy = doe - (365 * yoe + yoe div 4 - yoe div 100);
          mp = (5 * doy + 2) div 153;
          d = doy - (153 * mp + 2) div 5 + 1;
          m = (if mp < 10 then mp + 3 else mp - 9);
          y = yoe + era * 400
      in (if m \<le> 2 then y + 1 else y, m, d))"

definition digit :: "int \<Rightarrow> char" where
  "digit n = char_of (48 + n mod 10)"

definition pad2 :: "int \<Rightarrow> string" where
  "pad2 n = [digit (n div 10), digit n]"

definition pad4 :: "int \<Rightarrow> string" where
  "pad4 n = [digit (n div 1000), digit (n div 100), digit (n div 10), digit n]"

definition demo_Format :: "int \<Rightarrow> string" where
  "demo_Format t =
     (let s = t div 1000000000;
          sod = s mod 86400;
          (y, m, d) = civil_from_days (s div 86400)
      in pad4 y @ ''-'' @ pad2 m @ ''-'' @ pad2 d @ '' '' @
         pad2 (sod div 3600) @ '':'' @ pad2 (sod mod 3600 div 60) @ '':'' @ pad2 (sod mod 60))"

definition is_digit :: "char \<Rightarrow> bool" where
  "is_digit c = (48 \<le> (of_char c :: nat) \<and> (of_char c :: nat) \<le> 57)"

definition num :: "string \<Rightarrow> int" where
  "num ds = foldl (\<lambda>a c. 10 * a + (of_char c - 48)) 0 ds"

definition days_in :: "int \<Rightarrow> int \<Rightarrow> int" where
  "days_in y m =
     (if m = 2 then (if y mod 4 = 0 \<and> (y mod 100 \<noteq> 0 \<or> y mod 400 = 0) then 29 else 28)
      else if m = 4 \<or> m = 6 \<or> m = 9 \<or> m = 11 then 30 else 31)"

definition demo_Parse :: "string \<Rightarrow> int option" where
  "demo_Parse s =
     (if length s = 19
         \<and> list_all is_digit (take 4 s) \<and> s ! 4 = CHR ''-''
         \<and> list_all is_digit (take 2 (drop 5 s)) \<and> s ! 7 = CHR ''-''
         \<and> list_all is_digit (take 2 (drop 8 s)) \<and> s ! 10 = CHR '' ''
         \<and> list_all is_digit (take 2 (drop 11 s)) \<and> s ! 13 = CHR '':''
         \<and> list_all is_digit (take 2 (drop 14 s)) \<and> s ! 16 = CHR '':''
         \<and> list_all is_digit (take 2 (drop 17 s))
      then
        (let y = num (take 4 s); m = num (take 2 (drop 5 s)); d = num (take 2 (drop 8 s));
             hh = num (take 2 (drop 11 s)); mm = num (take 2 (drop 14 s));
             ss = num (take 2 (drop 17 s))
         in if 1 \<le> m \<and> m \<le> 12 \<and> 1 \<le> d \<and> d \<le> days_in y m \<and> hh < 24 \<and> mm < 60 \<and> ss < 60
            then Some ((days_from_civil y m d * 86400 + hh * 3600 + mm * 60 + ss) * 1000000000)
            else None)
      else None)"

text \<open>
  The demo world: the first reading of the clock is 1 January 2030, 00:00:00 UTC, and each
  reading is a microsecond after the one before; the database does not fail; bcrypt is
  replaced by a prefix (the hash of \<open>p\<close> is \<open>"$" + p\<close>); base64 and the
  template are the identity and the link.
\<close>

definition demo_world :: World where
  "demo_world =
     \<lparr> Now = (\<lambda>n. 1893456000000000000 + 1000 * int n),
       Format = demo_Format,
       Parse = demo_Parse,
       NewGCM = demo_gcm,
       rand_Reader = Some (\<lambda>i. CHR ''n''),
       db_fault = (\<lambda>c. None),
       bcrypt_compare = (\<lambda>h p. if h = CHR ''$'' # p then None else Some (ErrorNew ''mismatch'')),
       bcrypt_hash = (\<lambda>p. Inr (CHR ''$'' # p)),
       base64 = (\<lambda>b. b),
       new_uuid = ''00000000-0000-4000-8000-000000000001'',
       render_mail = (\<lambda>email link. Inr link) \<rparr>"

definition second_field :: "string \<Rightarrow> string" where
  "second_field s =
     takeWhile (\<lambda>c. c \<noteq> CHR ''_'') (tl (dropWhile (\<lambda>c. c \<noteq> CHR ''_'') s))"


text \<open>
  Two registered users whose addresses contain an underscore.  The second address has a
  quoted local part (the character \<open>0x22\<close> is the double quote) with a timestamp between two
  underscores.
\<close>

definition john_email :: string where
  "john_email = ''john_doe@example.com''"

definition quoted_email :: string where
  "quoted_email = CHR 0x22 # ''a_2030-01-02 00:00:00_b'' @ CHR 0x22 # ''@x.io''"

definition demo_user :: "string \<Rightarrow> string \<Rightarrow> User" where
  "demo_user uid email =
     \<lparr> ID = uid, Name = ''Test User'', Email = email, TelpNumber = ''1234567890'',
       Password = ''$password123'', Role = ''user'', ImageUrl = [], IsVerified = False,
       DeletedAt = None \<rparr>"

definition john_db :: DB where
  "john_db = \<lparr> users = [demo_user ''u1'' john_email], refresh_tokens = [] \<rparr>"

definition quoted_db :: DB where
  "quoted_db = \<lparr> users = [demo_user ''u2'' quoted_email], refresh_tokens = [] \<rparr>"


text \<open>The tokens that the verification mails to these two addresses carry in the demo world.\<close>

definition john_token :: string where
  "john_token = ''6e6e6e6e6e6e6e6e6e6e6e6e6a6f686e5f646f65406578616d706c652e636f6d5f323033302d30312d30322030303a30303a30306e6e6e6e6e6e6e6e6e6e6e6e''"

definition quoted_token :: string where
  "quoted_token = ''6e6e6e6e6e6e6e6e6e6e6e6e22615f323033302d30312d30322030303a30303a30305f622240782e696f5f323033302d30312d30322030303a30303a30306e6e6e6e6e6e6e6e6e6e6e6e''"


section \<open>The JWT service (service/jwt_service.go)\<close>

subsection \<open>The library\<close>

text \<open>
  \<open>github.com/golang-jwt/jwt/v4\<close> is not code of the repository.  Its signing methods are
  the HMAC family (HS256, HS384, HS512, all of the Go type \<open>*SigningMethodHMAC\<close>), the
  method \<open>none\<close>, and the others by the name of their algorithm.  A decoded token has the
  method that its header names, the claims, and the flag \<open>Valid\<close>.  The claims are a
  \<open>MapClaims\<close> (what \<open>jwt.Parse\<close> decodes into) or the \<open>jwtCustomClaim\<close> of the service (what
  \<open>jwt.ParseWithClaims\<close> is given).
\<close>

datatype hash_alg = SHA256 | SHA384 | SHA512

datatype SigningMethod = SigningMethodHMAC hash_alg | SigningMethodNone | SigningMethodOther string

definition SigningMethodHS256 :: SigningMethod where
  "SigningMethodHS256 = SigningMethodHMAC SHA256"

definition SigningMethodHS512 :: SigningMethod where
  "SigningMethodHS512 = SigningMethodHMAC SHA512"

datatype json = JString string | JNumber int | JBool bool | JNull

record jwtCustomClaim =
  claim_UserID :: string
  claim_Role :: string
  claim_ExpiresAt :: int
  claim_Issuer :: string
  claim_IssuedAt :: int

datatype Claims = MapClaims "(string \<times> json) list" | CustomClaims jwtCustomClaim

text \<open>
  \<open>jwt.NewNumericDate\<close> truncates the instant to the precision of the library, which is a
  second unless the program sets it otherwise (this one does not).
\<close>

definition NewNumericDate :: "int \<Rightarrow> int" where
  "NewNumericDate t = t - t mod 1000000000"

datatype claims_kind = IntoMapClaims | IntoCustomClaims

record jwt_Token =
  Raw :: string
  Method :: SigningMethod
  Header_alg :: string
  Claims :: Claims
  Valid :: bool

text \<open>
  The parts of the library that are cryptography, encoding and the clock are parameters:
  \<open>decode\<close> (base64 and JSON decoding of the header and the claims of a text of three
  segments, and the lookup of the method that the header's \<open>alg\<close> names), \<open>ClaimsValid\<close> (the
  check of the expiry and the other registered claims against the clock), \<open>Verify\<close> (the
  method's check of the signature of the raw token under a key) and \<open>SignedString\<close>.
\<close>

record jwt_lib =
  decode :: "claims_kind \<Rightarrow> string \<Rightarrow> error + jwt_Token"
  ClaimsValid :: "Claims \<Rightarrow> error option"
  Verify :: "SigningMethod \<Rightarrow> string \<Rightarrow> string \<Rightarrow> error option"
  SignedString :: "SigningMethod \<Rightarrow> Claims \<Rightarrow> string \<Rightarrow> error + string"

text \<open>
  \<open>Parser.ParseUnverified\<close> refuses a text that does not have three segments, then decodes.
  \<open>Parser.ParseWithClaims\<close> (and \<open>jwt.Parse\<close>, which is the same with \<open>MapClaims\<close>) calls the
  key function on the decoded, unverified token; an error of the key function ends the
  parse with that error inside a validation error; otherwise the claims are validated
  and the signature is verified under the key, and the token is returned with
  \<open>Valid = true\<close> when both pass.
\<close>

definition ParseUnverified :: "jwt_lib \<Rightarrow> claims_kind \<Rightarrow> string \<Rightarrow> error + jwt_Token" where
  "ParseUnverified lib kind tokenString =
     (if length (Split tokenString CHR ''.'') \<noteq> 3
      then Inl (ValidationError ''token contains an invalid number of segments'')
      else decode lib kind tokenString)"

definition ParseWithClaims ::
  "jwt_lib \<Rightarrow> claims_kind \<Rightarrow> (jwt_Token \<Rightarrow> error + string) \<Rightarrow> string \<Rightarrow> error + jwt_Token" where
  "ParseWithClaims lib kind keyFunc tokenString =
     (case ParseUnverified lib kind tokenString of
        Inl err \<Rightarrow> Inl err
      | Inr token \<Rightarrow>
          (case keyFunc token of
             Inl err \<Rightarrow> Inl (Unverifiable err)
           | Inr key \<Rightarrow>
               (case ClaimsValid lib (Claims token) of
                  Some err \<Rightarrow> Inl err
                | None \<Rightarrow>
                    (case Verify lib (Method token) tokenString key of
                       Some err \<Rightarrow> Inl err
                     | None \<Rightarrow> Inr (token \<lparr> Valid := True \<rparr>)))))"

subsection \<open>The service with access and refresh tokens\<close>

text \<open>
  The file holds two services of the name \<open>jwtService\<close>.  The first has the fields below;
  the names of its functions carry the number of the line of the file where each starts.
\<close>

record jwtService =
  secretKey :: string
  issuer :: string
  accessExpiry :: int
  refreshExpiry :: int

text \<open>
  \<open>GenerateAccessToken\<close> reads the clock twice, for \<open>ExpiresAt\<close> and then for \<open>IssuedAt\<close>;
  \<open>GenerateRefreshToken\<close> reads it once.
\<close>

definition GenerateAccessToken_58 :: "World \<Rightarrow> jwt_lib \<Rightarrow> jwtService \<Rightarrow> string \<Rightarrow> string \<Rightarrow> string" where
  "GenerateAccessToken_58 w lib j userId role =
     (let claims = CustomClaims
            \<lparr> claim_UserID = userId, claim_Role = role,
              claim_ExpiresAt = NewNumericDate (Now w 0 + accessExpiry j),
              claim_Issuer = issuer j, claim_IssuedAt = NewNumericDate (Now w 1) \<rparr>
      in case SignedString lib SigningMethodHS256 claims (secretKey j) of
           Inl err \<Rightarrow> []
         | Inr tx \<Rightarrow> tx)"

definition GenerateRefreshToken_78 :: "World \<Rightarrow> jwtService \<Rightarrow> string \<times> int" where
  "GenerateRefreshToken_78 w j =
     (case rand_Reader w of
        None \<Rightarrow> ([], zero_time)
      | Some f \<Rightarrow>
          (let b = map f [0 ..< 32];
               refreshToken = base64 w b;
               expiresAt = Now w 0 + refreshExpiry j
           in (refreshToken, expiresAt)))"

definition parseToken_93 :: "jwtService \<Rightarrow> jwt_Token \<Rightarrow> error + string" where
  "parseToken_93 j t =
     (case Method t of
        SigningMethodHMAC h \<Rightarrow> Inr (secretKey j)
      | _ \<Rightarrow> Inl (ErrorNew (''unexpected signing method '' @ Header_alg t)))"

definition ValidateToken_101 :: "jwt_lib \<Rightarrow> jwtService \<Rightarrow> string \<Rightarrow> error + jwt_Token" where
  "ValidateToken_101 lib j token =
     (if token = [] then Inl (ErrorNew ''token is empty'')
      else
        (let parts = Split token CHR ''.''
         in if length parts \<noteq> 3
            then Inl (ErrorNew ''token contains an invalid number of segments'')
            else
              (case ParseWithClaims lib IntoCustomClaims
                      (\<lambda>token. if Method token \<noteq> SigningMethodHS256
                                then Inl (ErrorNew (''unexpected signing method '' @ Header_alg token))
                                else Inr (secretKey j))
                      token of
                 Inl err \<Rightarrow> Inl (Wrap ''invalid token'' err)
               | Inr parsedToken \<Rightarrow>
                   if \<not> Valid parsedToken then Inl (ErrorNew ''invalid token'')
                   else Inr parsedToken)))"

definition GetUserIDByToken_132 :: "jwt_lib \<Rightarrow> jwtService \<Rightarrow> string \<Rightarrow> error + string" where
  "GetUserIDByToken_132 lib j token =
     (case ValidateToken_101 lib j token of
        Inl err \<Rightarrow> Inl err
      | Inr tToken \<Rightarrow>
          (case Claims tToken of
             CustomClaims claims \<Rightarrow> Inr (claim_UserID claims)
           | MapClaims m \<Rightarrow> Inl (ErrorNew ''invalid token claims'')))"

text \<open>The service as the \<open>JWTService\<close> that the user service holds.\<close>

definition NewJWTService :: "World \<Rightarrow> jwt_lib \<Rightarrow> jwtService \<Rightarrow> JWTService" where
  "NewJWTService w lib j =
     \<lparr> GenerateAccessToken = GenerateAccessToken_58 w lib j,
       GenerateRefreshToken = GenerateRefreshToken_78 w j \<rparr>"

subsection \<open>The service with \<open>GetRoleByToken\<close>\<close>

text \<open>
  The second service has the fields \<open>secretKey\<close> and \<open>issuer\<close> only (the same record, whose
  two expiries it does not read).  Its \<open>ValidateToken\<close> is \<open>jwt.Parse\<close> with \<open>parseToken\<close> as
  the key function.  The type assertions of \<open>GetRoleByToken\<close> have no \<open>ok\<close>: they panic when
  they fail.
\<close>

definition parseToken_209 :: "jwtService \<Rightarrow> jwt_Token \<Rightarrow> error + string" where
  "parseToken_209 j t =
     (case Method t of
        SigningMethodHMAC h \<Rightarrow> Inr (secretKey j)
      | _ \<Rightarrow> Inl (ErrorNew (''unexpected signing method '' @ Header_alg t)))"

definition ValidateToken_216 :: "jwt_lib \<Rightarrow> jwtService \<Rightarrow> string \<Rightarrow> error + jwt_Token" where
  "ValidateToken_216 lib j token = ParseWithClaims lib IntoMapClaims (parseToken_209 j) token"

definition GetRoleByToken_230 :: "jwt_lib \<Rightarrow> jwtService \<Rightarrow> string \<Rightarrow> (error + string) outcome" where
  "GetRoleByToken_230 lib j token =
     (case ValidateToken_216 lib j token of
        Inl err \<Rightarrow> Returned (Inl err)
      | Inr t \<Rightarrow>
          (case Claims t of
             CustomClaims c \<Rightarrow> Panicked
           | MapClaims claims \<Rightarrow>
               (case map_of claims ''role'' of
                  Some (JString role) \<Rightarrow> Returned (Inr role)
                | _ \<Rightarrow> Panicked)))"

text \<open>
  \<open>GenerateAccessToken\<close> reads the clock three times: for the expiry, for the seconds left
  until the expiry, \<open>int64(expirationTime.Sub(time.Now()).Seconds())\<close>, and for \<open>IssuedAt\<close>.
  The conversion to \<open>int64\<close> truncates.
\<close>

text \<open>
  \<open>GetUserIDByToken\<close> of this service (line 220) asserts \<open>jwt.MapClaims\<close>, which are the
  claims of every token that \<open>jwt.Parse\<close> returns, and formats \<open>claims["user_id"]\<close> with
  \<open>fmt.Sprintf("%v", ...)\<close>, for which \<open>Sprintf_v\<close> stands: it is given the value under the
  key, if there is one.
\<close>

definition GetUserIDByToken_220 ::
  "(json option \<Rightarrow> string) \<Rightarrow> jwt_lib \<Rightarrow> jwtService \<Rightarrow> string \<Rightarrow> (error + string) outcome" where
  "GetUserIDByToken_220 Sprintf_v lib j token =
     (case ValidateToken_216 lib j token of
        Inl err \<Rightarrow> Returned (Inl err)
      | Inr t_Token \<Rightarrow>
          (case Claims t_Token of
             CustomClaims c \<Rightarrow> Panicked
           | MapClaims claims \<Rightarrow> Returned (Inr (Sprintf_v (map_of claims ''user_id'')))))"

definition GenerateAccessToken_241 ::
  "(float64 \<Rightarrow> int) \<Rightarrow> World \<Rightarrow> jwt_lib \<Rightarrow> jwtService \<Rightarrow> string \<Rightarrow> string
     \<Rightarrow> error + (string \<times> int)" where
  "GenerateAccessToken_241 impl w lib j userID role =
     (let expirationTime = Now w 0 + Minute * 15;
          expiresIn = int64_of_float64 impl (Seconds (Sub expirationTime (Now w 1)));
          claims = CustomClaims
            \<lparr> claim_UserID = userID, claim_Role = role,
              claim_ExpiresAt = NewNumericDate expirationTime,
              claim_Issuer = issuer j, claim_IssuedAt = NewNumericDate (Now w 2) \<rparr>
      in case SignedString lib SigningMethodHS256 claims (secretKey j) of
           Inl err \<Rightarrow> Inl err
         | Inr t \<Rightarrow> Inr (t, expiresIn))"

text \<open>
  A library to run the model on.  \<open>stub_lib t\<close> decodes every text to the token \<open>t\<close>, finds
  its claims valid and its signature good; \<open>SignedString\<close> gives a fixed text.
\<close>

definition stub_lib :: "jwt_Token \<Rightarrow> jwt_lib" where
  "stub_lib t =
     \<lparr> decode = (\<lambda>kind s. Inr t),
       ClaimsValid = (\<lambda>c. None),
       Verify = (\<lambda>m raw key. None),
       SignedString = (\<lambda>m c key. Inr ''header.claims.signature'') \<rparr>"

definition demo_service :: jwtService where
  "demo_service =
     \<lparr> secretKey = ''Template'', issuer = ''Template'',
       accessExpiry = Minute * 15, refreshExpiry = Hour * 24 * 7 \<rparr>"

text \<open>
  Two decoded tokens: one signed with HS256 whose claims have a \<open>user_id\<close> and no \<open>role\<close>,
  and one signed with HS512 as the test of the service builds it.
\<close>

definition no_role_token :: jwt_Token where
  "no_role_token =
     \<lparr> Raw = ''h.c.s'', Method = SigningMethodHS256, Header_alg = ''HS256'',
       Claims = MapClaims [(''user_id'', JString ''test-user''), (''exp'', JNumber 1893456900)],
       Valid = False \<rparr>"

definition numeric_role_token :: jwt_Token where
  "numeric_role_token =
     \<lparr> Raw = ''h.c.s'', Method = SigningMethodHS256, Header_alg = ''HS256'',
       Claims = MapClaims [(''user_id'', JString ''test-user''), (''role'', JNumber 7)],
       Valid = False \<rparr>"

definition hs512_token :: jwt_Token where
  "hs512_token =
     \<lparr> Raw = ''h.c.s'', Method = SigningMethodHS512, Header_alg = ''HS512'',
       Claims = MapClaims [(''user_id'', JString ''test-user''), (''role'', JString ''admin'')],
       Valid = False \<rparr>"


text \<open>
  Stand-ins for the two errors that the sources do not declare, an access token
  generator that succeeds and a configuration, to run the auth service; and stores with
  a verified user \<open>u1\<close> and refresh tokens (the first reading of the demo world's clock is
  \<open>1893456000000000000\<close>).
\<close>

definition demo_dto :: dto_undeclared where
  "demo_dto =
     \<lparr> ErrAccountNotVerified = ErrorNew ''account not verified'',
       ErrPasswordNotMatch = ErrorNew ''password not match'' \<rparr>"

definition demo_generate :: GenerateAccessToken3 where
  "demo_generate userID role = Inr (''access-token'', 900)"

definition demo_config :: "bool \<Rightarrow> JWTConfig" where
  "demo_config flag =
     \<lparr> SecretKey = ''Template'', Issuer = ''Template'', RefreshTokenExpiry = 168,
       RotateRefreshToken = flag \<rparr>"

definition demo_jwt :: JWTService where
  "demo_jwt =
     \<lparr> GenerateAccessToken = (\<lambda>userId role. ''mock-access-token''),
       GenerateRefreshToken = (''mock-refresh-token'', 1893456000000000000 + Hour * 24) \<rparr>"

definition verified_user :: User where
  "verified_user = (demo_user ''u1'' ''user@example.com'') \<lparr> IsVerified := True \<rparr>"

definition old_token :: RefreshToken where
  "old_token = \<lparr> UserID = ''u1'', Token = ''old-token'', ExpiresAt = 1893456000000000000 + Hour \<rparr>"

definition other_token :: RefreshToken where
  "other_token = \<lparr> UserID = ''u1'', Token = ''other-token'', ExpiresAt = 1893456000000000000 + Hour \<rparr>"

definition expired_token :: RefreshToken where
  "expired_token = \<lparr> UserID = ''u1'', Token = ''expired-token'', ExpiresAt = 1893456000000000000 - Hour \<rparr>"

definition login_db :: DB where
  "login_db = \<lparr> users = [verified_user], refresh_tokens = [old_token] \<rparr>"

definition two_token_db :: DB where
  "two_token_db = \<lparr> users = [verified_user], refresh_tokens = [old_token, other_token] \<rparr>"

definition expired_db :: DB where
  "expired_db = \<lparr> users = [verified_user], refresh_tokens = [expired_token] \<rparr>"

text \<open>The demo world with a database that fails on the calls of \<open>cs\<close>.\<close>

definition failing_world :: "db_call list \<Rightarrow> World" where
  "failing_world cs =
     demo_world \<lparr> db_fault := (\<lambda>c. if c \<in> set cs then Some ErrDatabase else None) \<rparr>"


chapter \<open>Verified properties\<close>

section \<open>Properties of \<open>TotalPage\<close>\<close>

lemma pow2_pos: "0 < pow2 e"
  by (simp add: pow2_def)

lemma pow2_powi: "pow2 e = 2 powi e"
  by (simp add: pow2_def power_int_def power_one_over)

lemma pow2_add: "pow2 (a + b) = pow2 a * pow2 b"
  by (simp add: pow2_powi power_int_add)

lemma pow2_nat: "pow2 (int k) = 2 ^ k"
  by (simp add: pow2_def)

lemma pow2_neg: "pow2 (- e) = 1 / pow2 e"
  by (simp add: pow2_powi power_int_minus inverse_eq_divide)

lemma pow2_mono: "a \<le> b \<Longrightarrow> pow2 a \<le> pow2 b"
  by (simp add: pow2_powi power_int_increasing)

lemma rne_of_int: "rne (of_int k) = k"
  by (simp add: rne_def)

lemma f64_round_pos:
  assumes "0 < x"
    and "r = of_int (rne (x / pow2 (max (flog2 x) (- 1022) - 52))) * pow2 (max (flog2 x) (- 1022) - 52)"
    and "r < f64_overflow" and "r \<noteq> 0"
  shows "f64_round x = Finite r"
  using assms by (simp add: f64_round_def Let_def)

lemma below_overflow: "n < 2 ^ 63 \<Longrightarrow> rat_of_int n < f64_overflow"
proof -
  assume "n < 2 ^ 63"
  then have "rat_of_int n < of_int (2 ^ 63)" by (simp only: of_int_less_iff)
  also have "\<dots> \<le> f64_overflow" by (simp add: f64_overflow_def)
  finally show ?thesis .
qed

text \<open>An integer below \<open>2^53\<close> is a \<open>float64\<close>: its conversion is exact.\<close>

lemma f64_round_int:
  assumes "0 < n" "n < 2 ^ 53"
  shows "f64_round (of_int n) = Finite (of_int n)"
proof -
  have fl: "flog2 (of_int n) = bitlen n - 1"
    using assms(1) by (simp add: flog2_def)
  have b1: "1 \<le> bitlen n"
    using assms(1) by (simp add: bitlen_alt_def)
  have b2: "bitlen n \<le> 53"
    using assms by (simp add: bitlen_le_iff_power)
  define k where "k = nat (53 - bitlen n)"
  have e: "max (bitlen n - 1) (- 1022) - 52 = - int k"
    using b1 b2 by (simp add: k_def)
  have q: "pow2 (- int k) = 1 / 2 ^ k"
    by (simp add: pow2_neg pow2_nat)
  have y: "rat_of_int n / (1 / 2 ^ k) = of_int (n * 2 ^ k)"
    by simp
  have r: "of_int (rne (rat_of_int n / (1 / 2 ^ k))) * (1 / 2 ^ k) = rat_of_int n"
    unfolding y rne_of_int by simp
  show ?thesis
  proof (rule f64_round_pos)
    show "0 < rat_of_int n" using assms(1) by simp
    show "rat_of_int n = of_int (rne (rat_of_int n / pow2 (max (flog2 (rat_of_int n)) (- 1022) - 52))) *
       pow2 (max (flog2 (rat_of_int n)) (- 1022) - 52)"
      unfolding fl e q r ..
    show "rat_of_int n < f64_overflow" using assms(2) by (intro below_overflow) simp
    show "rat_of_int n \<noteq> 0" using assms(1) by simp
  qed
qed

lemma float64_of_int64_exact:
  "0 \<le> n \<Longrightarrow> n < 2 ^ 53 \<Longrightarrow> float64_of_int64 n = Finite (of_int n)"
  by (cases "n = 0") (simp_all add: float64_of_int64_def f64_round_int, simp add: f64_round_def)


lemma rne_le: 
  assumes "y \<le> of_int K" shows "rne y \<le> K"
proof (cases "y = of_int K")
  case True
  then show ?thesis by (simp add: rne_of_int)
next
  case False
  with assms have "y < of_int K" by simp
  then have "\<lfloor>y\<rfloor> < K" by (simp add: floor_less_iff)
  moreover have "rne y \<le> \<lfloor>y\<rfloor> + 1" by (simp add: rne_def Let_def)
  ultimately show ?thesis by linarith
qed

lemma rne_ge:
  assumes "of_int K + 1 / 2 < y" shows "K + 1 \<le> rne y"
proof -
  have "of_int K \<le> y" using assms by simp
  then have fl: "K \<le> \<lfloor>y\<rfloor>" by (simp add: le_floor_iff)
  show ?thesis
  proof (cases "K = \<lfloor>y\<rfloor>")
    case True
    then have "1 / 2 < y - of_int \<lfloor>y\<rfloor>" using assms by simp
    then have "rne y = \<lfloor>y\<rfloor> + 1" by (simp add: rne_def Let_def)
    with True show ?thesis by simp
  next
    case False
    with fl have "K + 1 \<le> \<lfloor>y\<rfloor>" by simp
    moreover have "\<lfloor>y\<rfloor> \<le> rne y" by (simp add: rne_def Let_def)
    ultimately show ?thesis by linarith
  qed
qed

lemma pow2_of_nat_int: "0 \<le> e \<Longrightarrow> pow2 e = 2 ^ nat e"
  by (simp add: pow2_def)

lemma flog2_lower:
  assumes "0 < x" shows "pow2 (flog2 x) \<le> x"
proof (cases "1 \<le> x")
  case True
  define n where "n = \<lfloor>x\<rfloor>"
  have n: "0 < n" using True by (simp add: n_def)
  have b1: "1 \<le> bitlen n" using n by (simp add: bitlen_alt_def)
  have "2 ^ nat (bitlen n - 1) \<le> n" using bitlen_bounds [OF n] by simp
  then have "rat_of_int (2 ^ nat (bitlen n - 1)) \<le> of_int n" by (simp only: of_int_le_iff)
  also have "\<dots> \<le> x" by (simp add: n_def)
  finally have "2 ^ nat (bitlen n - 1) \<le> x" by simp
  moreover have "pow2 (bitlen n - 1) = 2 ^ nat (bitlen n - 1)"
    using b1 by (simp add: pow2_def)
  ultimately show ?thesis using True by (simp add: flog2_def n_def)
next
  case False
  define m where "m = \<lceil>1 / x\<rceil> - 1"
  have "1 < 1 / x" using False assms by simp
  then have "1 < \<lceil>1 / x\<rceil>" by (simp add: less_ceiling_iff)
  then have m: "0 < m" by (simp add: m_def)
  have "m < 2 ^ nat (bitlen m)" using bitlen_bounds [OF m] by simp
  then have "m + 1 \<le> 2 ^ nat (bitlen m)" by simp
  then have "rat_of_int (m + 1) \<le> of_int (2 ^ nat (bitlen m))" by (simp only: of_int_le_iff)
  then have "rat_of_int \<lceil>1 / x\<rceil> \<le> 2 ^ nat (bitlen m)" by (simp add: m_def)
  moreover have "1 / x \<le> of_int \<lceil>1 / x\<rceil>" by (rule le_of_int_ceiling)
  ultimately have "1 / x \<le> 2 ^ nat (bitlen m)" by linarith
  then have "1 \<le> 2 ^ nat (bitlen m) * x" using assms by (simp add: pos_divide_le_eq)
  then have "1 / 2 ^ nat (bitlen m) \<le> x" by (simp add: pos_divide_le_eq mult.commute)
  moreover have "pow2 (- bitlen m) = 1 / 2 ^ nat (bitlen m)"
    using bitlen_nonneg [of m] by (cases "bitlen m = 0") (simp_all add: pow2_def)
  ultimately show ?thesis using False by (simp add: flog2_def m_def)
qed


lemma pow2_53: "pow2 53 = 2 ^ 53"
  by (simp add: pow2_def)

lemma rne_floor_le: "of_int K \<le> y \<Longrightarrow> K \<le> rne y"
proof -
  assume "of_int K \<le> y"
  then have "K \<le> \<lfloor>y\<rfloor>" by (simp add: le_floor_iff)
  moreover have "\<lfloor>y\<rfloor> \<le> rne y" by (simp add: rne_def Let_def)
  ultimately show ?thesis by linarith
qed

text \<open>
  The rounded quotient \<open>a / b\<close> of two positive integers, \<open>a\<close> at most \<open>2^53\<close> and \<open>b\<close> below
  \<open>2^53\<close>, lies between the ceiling of the exact quotient, and that ceiling less one: the
  quotient of a division that is not exact is at least \<open>1 / b\<close> above an integer, which is
  more than half the spacing of the \<open>float64\<close> numbers there.
\<close>

lemma f64_round_quotient:
  fixes a b :: int
  assumes a: "0 < a" "a \<le> 2 ^ 53" and b: "0 < b" "b < 2 ^ 53"
    and q53: "rat_of_int a / rat_of_int b < 2 ^ 53"
  defines "x \<equiv> rat_of_int a / rat_of_int b"
  shows "\<exists>r. f64_round x = Finite r \<and> of_int (\<lceil>x\<rceil> - 1) < r \<and> r \<le> of_int \<lceil>x\<rceil>"
proof -
  define c where "c = \<lceil>x\<rceil>"
  have bpos: "0 < rat_of_int b" and apos: "0 < rat_of_int a" using a b by simp_all
  have xpos: "0 < x" using apos bpos by (simp add: x_def)
  have a53: "rat_of_int a \<le> 2 ^ 53"
  proof -
    have "rat_of_int a \<le> of_int (2 ^ 53)" using a(2) by (simp only: of_int_le_iff)
    then show ?thesis by simp
  qed
  have b53: "rat_of_int b < 2 ^ 53"
  proof -
    have "rat_of_int b < of_int (2 ^ 53)" using b(2) by (simp only: of_int_less_iff)
    then show ?thesis by simp
  qed
  have b1: "1 \<le> rat_of_int b" using b(1) by simp
  have xa: "x \<le> rat_of_int a"
    unfolding x_def using b1 apos by (simp add: pos_divide_le_eq mult_le_cancel_left1)
  have x53: "x < 2 ^ 53" using q53 by (simp add: x_def)
  have xb: "1 / rat_of_int b \<le> x"
  proof -
    have "1 \<le> rat_of_int a" using a(1) by simp
    then show ?thesis unfolding x_def using bpos by (simp add: divide_le_cancel)
  qed
  have small: "pow2 (- 1022) \<le> x"
  proof -
    have "pow2 (- 1022) \<le> pow2 (- 53)" by (rule pow2_mono) simp
    also have "\<dots> = 1 / 2 ^ 53" by (simp add: pow2_def)
    also have "\<dots> \<le> 1 / rat_of_int b"
      using b53 bpos by (simp add: frac_le)
    also have "\<dots> \<le> x" by (rule xb)
    finally show ?thesis .
  qed
  define E where "E = max (flog2 x) (- 1022)"
  have Elow: "pow2 E \<le> x"
    using flog2_lower [OF xpos] small by (simp add: E_def max_def)
  have E52: "E \<le> 52"
  proof (rule ccontr)
    assume "\<not> E \<le> 52"
    then have "53 \<le> E" by simp
    then have "pow2 53 \<le> pow2 E" by (rule pow2_mono)
    with Elow x53 show False by (simp add: pow2_53)
  qed
  define k where "k = nat (52 - E)"
  have Ek: "E - 52 = - int k" using E52 by (simp add: k_def)
  have q: "pow2 (E - 52) = 1 / 2 ^ k"
    unfolding Ek by (simp add: pow2_neg pow2_nat)
  have pk: "(0::rat) < 2 ^ k" by simp
  define y where "y = x * 2 ^ k"
  have xq: "x / pow2 (E - 52) = y" by (simp add: q y_def)
  define m where "m = rne y"
  define r where "r = rat_of_int m / 2 ^ k"
  have rdef: "r = of_int (rne (x / pow2 (max (flog2 x) (- 1022) - 52))) *
                  pow2 (max (flog2 x) (- 1022) - 52)"
    using xq q by (simp add: r_def m_def E_def)
  \<comment> \<open>the upper bound\<close>
  have xc: "x \<le> of_int c" by (simp add: c_def)
  have "y \<le> of_int c * 2 ^ k"
    unfolding y_def using xc pk by (simp add: mult_right_mono)
  then have "y \<le> rat_of_int (c * 2 ^ k)" by simp
  then have "m \<le> c * 2 ^ k" unfolding m_def by (rule rne_le)
  then have "rat_of_int m \<le> of_int (c * 2 ^ k)" by (simp only: of_int_le_iff)
  then have "rat_of_int m \<le> of_int c * 2 ^ k" by simp
  then have upper: "r \<le> of_int c"
    unfolding r_def using pk by (simp add: pos_divide_le_eq)
  \<comment> \<open>the lower bound\<close>
  have "rat_of_int b * pow2 E \<le> rat_of_int a"
    using Elow bpos by (simp add: x_def pos_le_divide_eq mult.commute)
  then have bE: "rat_of_int b * pow2 E \<le> 2 ^ 53" using a53 by linarith
  have "pow2 E * pow2 (53 - E) = pow2 53" by (simp add: pow2_add [symmetric])
  moreover have "pow2 (53 - E) = 2 ^ (k + 1)"
  proof -
    have "53 - E = int (k + 1)" using E52 by (simp add: k_def)
    then show ?thesis by (simp only: pow2_nat)
  qed
  ultimately have Ek1: "pow2 E * 2 ^ (k + 1) = 2 ^ 53" by (simp add: pow2_53)
  with bE have "rat_of_int b * pow2 E \<le> pow2 E * 2 ^ (k + 1)" by simp
  then have bk: "rat_of_int b \<le> 2 ^ (k + 1)"
    using pow2_pos [of E] by (simp add: mult.commute)
  have cx: "rat_of_int (c - 1) < x"
  proof -
    have "c - 1 < \<lceil>x\<rceil>" by (simp add: c_def)
    then show ?thesis by (simp only: less_ceiling_iff)
  qed
  have frac: "rat_of_int (c - 1) + 1 / of_int b \<le> x"
  proof -
    have "rat_of_int (c - 1) * of_int b < of_int a"
      using cx bpos by (simp add: x_def pos_less_divide_eq)
    then have "rat_of_int ((c - 1) * b) < of_int a" by simp
    then have "(c - 1) * b < a" by (simp only: of_int_less_iff)
    then have "(c - 1) * b + 1 \<le> a" by simp
    then have "rat_of_int ((c - 1) * b + 1) \<le> of_int a" by (simp only: of_int_le_iff)
    then have "rat_of_int (c - 1) * of_int b + 1 \<le> of_int a" by simp
    then have "(rat_of_int (c - 1) * of_int b + 1) / of_int b \<le> of_int a / of_int b"
      using bpos by (simp add: divide_right_mono)
    then show ?thesis using bpos by (simp add: x_def add_divide_distrib)
  qed
  have lower: "rat_of_int (c - 1) < r"
  proof (cases "rat_of_int b = 2 ^ (k + 1)")
    case True
    \<comment> \<open>then \<open>a = 2^53\<close> and the quotient is a power of two, which is not rounded\<close>
    have "rat_of_int b * pow2 E = 2 ^ 53"
      using Ek1 True by (simp add: mult.commute)
    with \<open>rat_of_int b * pow2 E \<le> rat_of_int a\<close> a53 have a_eq: "rat_of_int a = 2 ^ 53"
      by linarith
    have "y = 2 ^ 53 / 2 ^ (k + 1) * 2 ^ k"
      by (simp add: y_def x_def a_eq True)
    also have "\<dots> = 2 ^ 52" by simp
    finally have "y = rat_of_int (2 ^ 52)" by simp
    then have "rat_of_int m = y"
      unfolding m_def by (simp only: rne_of_int)
    then have "r = x"
      by (simp add: r_def y_def)
    with cx show ?thesis by simp
  next
    case False
    have half: "1 / 2 < 2 ^ k / rat_of_int b"
    proof -
      have "rat_of_int b < 2 * 2 ^ k" using bk False by simp
      then show ?thesis using bpos by (simp add: pos_less_divide_eq)
    qed
    have "rat_of_int ((c - 1) * 2 ^ k) + 1 / 2 < y"
    proof -
      have "(rat_of_int (c - 1) + 1 / of_int b) * 2 ^ k \<le> x * 2 ^ k"
        using frac pk by (simp add: mult_right_mono)
      then have "rat_of_int (c - 1) * 2 ^ k + 2 ^ k / of_int b \<le> y"
        by (simp add: y_def distrib_right)
      moreover have "rat_of_int ((c - 1) * 2 ^ k) = rat_of_int (c - 1) * 2 ^ k"
        by simp
      ultimately show ?thesis using half by linarith
    qed
    then have "(c - 1) * 2 ^ k + 1 \<le> m" unfolding m_def by (rule rne_ge)
    then have "rat_of_int ((c - 1) * 2 ^ k + 1) \<le> of_int m" by (simp only: of_int_le_iff)
    then have "rat_of_int (c - 1) * 2 ^ k + 1 \<le> of_int m" by simp
    then have "(rat_of_int (c - 1) * 2 ^ k + 1) / 2 ^ k \<le> r"
      unfolding r_def using pk by (simp add: divide_right_mono)
    then have "rat_of_int (c - 1) + 1 / 2 ^ k \<le> r"
      by (simp add: add_divide_distrib)
    moreover have "(0::rat) < 1 / 2 ^ k" by simp
    ultimately show ?thesis by linarith
  qed
  \<comment> \<open>no overflow, no zero\<close>
  have c1: "1 \<le> c" using xpos by (simp add: c_def)
  have "c \<le> a" unfolding c_def using xa by (simp add: ceiling_le)
  then have "c < 2 ^ 63" using a(2) by simp
  then have "rat_of_int c < f64_overflow" by (rule below_overflow)
  with upper have rlt: "r < f64_overflow" by linarith
  have "0 \<le> rat_of_int (c - 1)" using c1 by simp
  with lower have rne0: "r \<noteq> 0" by linarith
  have "f64_round x = Finite r"
    using xpos rdef rlt rne0 by (rule f64_round_pos)
  with lower upper show ?thesis by (auto simp add: c_def)
qed




text \<open>
  A number between \<open>2^-1022\<close> and \<open>1\<close> is rounded to a number above \<open>0\<close> and at most \<open>1\<close>; an
  integer from \<open>2^53\<close> to \<open>2^63\<close> is rounded to a number in that range.
\<close>

lemma f64_round_unit:
  assumes "pow2 (- 1022) \<le> x" and "x \<le> 1"
  shows "\<exists>r. f64_round x = Finite r \<and> 0 < r \<and> r \<le> 1"
proof -
  have xpos: "0 < x" using assms(1) pow2_pos [of "- 1022"] by linarith
  define E where "E = max (flog2 x) (- 1022)"
  have Elow: "pow2 E \<le> x"
    using flog2_lower [OF xpos] assms(1) by (simp add: E_def max_def)
  have E0: "E \<le> 0"
  proof (rule ccontr)
    assume "\<not> E \<le> 0"
    then have "1 \<le> E" by simp
    then have "pow2 1 \<le> pow2 E" by (rule pow2_mono)
    moreover have "pow2 1 = 2" by (simp add: pow2_def)
    ultimately show False using Elow assms(2) by linarith
  qed
  define k where "k = nat (52 - E)"
  have Ek: "E - 52 = - int k" using E0 by (simp add: k_def)
  have q: "pow2 (E - 52) = 1 / 2 ^ k"
    unfolding Ek by (simp add: pow2_neg pow2_nat)
  have pk: "(0::rat) < 2 ^ k" by simp
  define y where "y = x * 2 ^ k"
  have xq: "x / pow2 (E - 52) = y" by (simp add: q y_def)
  define m where "m = rne y"
  define r where "r = rat_of_int m / 2 ^ k"
  have rdef: "r = of_int (rne (x / pow2 (max (flog2 x) (- 1022) - 52))) *
                  pow2 (max (flog2 x) (- 1022) - 52)"
    using xq q by (simp add: r_def m_def E_def)
  have "y \<le> 1 * 2 ^ k"
    unfolding y_def using assms(2) pk by (intro mult_right_mono) simp_all
  then have "y \<le> rat_of_int (2 ^ k)" by simp
  then have "m \<le> 2 ^ k" unfolding m_def by (rule rne_le)
  then have "rat_of_int m \<le> of_int (2 ^ k)" by (simp only: of_int_le_iff)
  then have "rat_of_int m \<le> 2 ^ k" by simp
  then have upper: "r \<le> 1"
    unfolding r_def using pk by (simp add: pos_divide_le_eq)
  have "pow2 E * 2 ^ k \<le> y"
    unfolding y_def using Elow pk by (intro mult_right_mono) simp_all
  moreover have "pow2 E * 2 ^ k = pow2 52"
  proof -
    have "pow2 E * pow2 (int k) = pow2 (E + int k)" by (simp add: pow2_add)
    moreover have "E + int k = 52" using E0 by (simp add: k_def)
    ultimately show ?thesis by (simp add: pow2_nat)
  qed
  moreover have "pow2 52 = rat_of_int (2 ^ 52)" by (simp add: pow2_def)
  ultimately have "rat_of_int (2 ^ 52) \<le> y" by simp
  then have "2 ^ 52 \<le> m" unfolding m_def by (rule rne_floor_le)
  then have "0 < m" by simp
  then have lower: "0 < r" unfolding r_def by simp
  have "r < f64_overflow" using upper by (simp add: f64_overflow_def)
  moreover have "r \<noteq> 0" using lower by simp
  ultimately have "f64_round x = Finite r"
    using xpos rdef by (intro f64_round_pos)
  with lower upper show ?thesis by blast
qed

lemma f64_round_big_int:
  assumes "2 ^ 53 \<le> b" and "b < 2 ^ 63"
  shows "\<exists>r. f64_round (of_int b) = Finite r \<and> 2 ^ 53 \<le> r \<and> r \<le> 2 ^ 63"
proof -
  have bpos: "0 < b" using assms(1) by (rule less_le_trans [rotated]) simp
  have fl: "flog2 (of_int b) = bitlen b - 1"
    using bpos by (simp add: flog2_def)
  have b1: "54 \<le> bitlen b"
  proof (rule ccontr)
    assume "\<not> 54 \<le> bitlen b"
    then have "bitlen b \<le> 53" by simp
    then have "b < 2 ^ 53" by (simp add: bitlen_le_iff_power)
    with assms(1) show False by simp
  qed
  have b2: "bitlen b \<le> 63"
    using assms(2) by (simp add: bitlen_le_iff_power)
  define j where "j = nat (bitlen b - 53)"
  have j: "1 \<le> j" "j \<le> 10" using b1 b2 by (simp_all add: j_def)
  have e: "max (bitlen b - 1) (- 1022) - 52 = int j"
    using b1 by (simp add: j_def)
  have q: "pow2 (int j) = 2 ^ j" by (rule pow2_nat)
  have pj: "(0::rat) < 2 ^ j" by simp
  define y where "y = rat_of_int b / 2 ^ j"
  define m where "m = rne y"
  define r where "r = rat_of_int m * 2 ^ j"
  have s53: "(2::int) ^ (53 - j) * 2 ^ j = 2 ^ 53"
    using j by (simp add: power_add [symmetric])
  have s63: "(2::int) ^ (63 - j) * 2 ^ j = 2 ^ 63"
    using j by (simp add: power_add [symmetric])
  have "rat_of_int (2 ^ (53 - j) * 2 ^ j) \<le> of_int b"
    unfolding s53 using assms(1) by (simp only: of_int_le_iff)
  then have "rat_of_int (2 ^ (53 - j)) * 2 ^ j \<le> of_int b" by simp
  then have "rat_of_int (2 ^ (53 - j)) \<le> y"
    unfolding y_def using pj by (simp add: pos_le_divide_eq)
  then have "2 ^ (53 - j) \<le> m" unfolding m_def by (rule rne_floor_le)
  then have "2 ^ (53 - j) * 2 ^ j \<le> m * 2 ^ j" by simp
  then have "2 ^ 53 \<le> m * 2 ^ j" unfolding s53 .
  then have "rat_of_int (2 ^ 53) \<le> of_int (m * 2 ^ j)" by (simp only: of_int_le_iff)
  then have lower: "2 ^ 53 \<le> r" by (simp add: r_def)
  have "rat_of_int b \<le> of_int (2 ^ (63 - j) * 2 ^ j)"
    unfolding s63 using assms(2) by (simp only: of_int_le_iff)
  then have "rat_of_int b \<le> rat_of_int (2 ^ (63 - j)) * 2 ^ j" by simp
  then have "y \<le> rat_of_int (2 ^ (63 - j))"
    unfolding y_def using pj by (simp add: pos_divide_le_eq)
  then have "m \<le> 2 ^ (63 - j)" unfolding m_def by (rule rne_le)
  then have "m * 2 ^ j \<le> 2 ^ (63 - j) * 2 ^ j" by simp
  then have "m * 2 ^ j \<le> 2 ^ 63" unfolding s63 .
  then have "rat_of_int (m * 2 ^ j) \<le> of_int (2 ^ 63)" by (simp only: of_int_le_iff)
  then have upper: "r \<le> 2 ^ 63" by (simp add: r_def)
  have "r < f64_overflow" using upper by (simp add: f64_overflow_def)
  moreover have "r \<noteq> 0" using lower by auto
  moreover have "0 < rat_of_int b" using bpos by simp
  moreover have "r = of_int (rne (rat_of_int b / pow2 (max (flog2 (rat_of_int b)) (- 1022) - 52))) *
       pow2 (max (flog2 (rat_of_int b)) (- 1022) - 52)"
    unfolding fl e q by (simp add: r_def m_def y_def)
  ultimately have "f64_round (of_int b) = Finite r"
    by (intro f64_round_pos)
  with lower upper show ?thesis by blast
qed

lemma ceiling_quotient_div:
  fixes a b :: int
  assumes "0 < b"
  shows "\<lceil>rat_of_int a / rat_of_int b\<rceil> = (a + b - 1) div b"
proof (rule ceiling_unique)
  define z where "z = (a + b - 1) div b"
  have bpos: "0 < rat_of_int b" using assms by simp
  have dm: "b * z + (a + b - 1) mod b = a + b - 1"
    unfolding z_def by (rule mult_div_mod_eq)
  have m0: "0 \<le> (a + b - 1) mod b" and m1: "(a + b - 1) mod b < b"
    using assms by simp_all
  have 1: "b * z \<le> a + b - 1" using dm m0 by linarith
  have 2: "a + b - 1 < b * z + b" using dm m1 by linarith
  from 1 have "b * (z - 1) < a" by (simp add: algebra_simps)
  then have "rat_of_int (b * (z - 1)) < of_int a" by (simp only: of_int_less_iff)
  then have "rat_of_int (z - 1) * of_int b < of_int a" by (simp add: mult.commute)
  then show "rat_of_int ((a + b - 1) div b) - 1 < rat_of_int a / rat_of_int b"
    using bpos by (simp add: pos_less_divide_eq z_def)
  from 2 have "a \<le> b * z" by simp
  then have "rat_of_int a \<le> of_int (b * z)" by (simp only: of_int_le_iff)
  then have "rat_of_int a \<le> of_int z * of_int b" by (simp add: mult.commute)
  then show "rat_of_int a / rat_of_int b \<le> rat_of_int ((a + b - 1) div b)"
    using bpos by (simp add: pos_divide_le_eq z_def)
qed


lemma f64_round_2_53:
  "f64_round 9007199254740993 = Finite 9007199254740992"
  "f64_round 9007199254740992 = Finite 9007199254740992"
proof -
  have "bitlen (2 ^ 53 + 1) = 54"
    using bitlen_twopow_add_eq [of 1 53] by simp
  moreover have "bitlen (2 ^ 53 + 0) = 54"
    using bitlen_twopow_add_eq [of 0 53] by simp
  ultimately have fl: "flog2 9007199254740993 = 53" "flog2 9007199254740992 = 53"
    by (simp_all add: flog2_def)
  have q: "pow2 1 = 2"
    by (simp add: pow2_def)
  have "\<lfloor>9007199254740993 / 2 :: rat\<rfloor> = 4503599627370496"
    by (rule floor_unique) simp_all
  then have m: "rne (9007199254740993 / 2) = 4503599627370496"
    by (simp add: rne_def Let_def)
  have m': "rne 4503599627370496 = 4503599627370496"
    using rne_of_int [of 4503599627370496] by simp
  show "f64_round 9007199254740993 = Finite 9007199254740992"
    by (rule f64_round_pos) (simp_all add: fl q m f64_overflow_def)
  show "f64_round 9007199254740992 = Finite 9007199254740992"
    by (rule f64_round_pos) (simp_all add: fl q m' f64_overflow_def)
qed

text \<open>
  The conversion \<open>float64(n)\<close> is exact up to \<open>2^53\<close>, and for a positive \<open>int64\<close> it is
  positive.
\<close>

lemma float64_of_int64_pos:
  assumes "0 < b" and "b < 2 ^ 63"
  shows "\<exists>r. float64_of_int64 b = Finite r \<and> 0 < r \<and> r \<le> 2 ^ 63
           \<and> (2 ^ 53 \<le> b \<longrightarrow> 2 ^ 53 \<le> r)"
proof (cases "b < 2 ^ 53")
  case True
  have "rat_of_int b \<le> of_int (2 ^ 63)"
    using assms(2) by (simp only: of_int_le_iff)
  then have "rat_of_int b \<le> 2 ^ 63" by simp
  then show ?thesis
    using True assms(1) by (simp add: float64_of_int64_exact)
next
  case False
  then have "2 ^ 53 \<le> b" by simp
  from f64_round_big_int [OF this assms(2)] obtain r where
    r: "f64_round (of_int b) = Finite r" "2 ^ 53 \<le> r" "r \<le> 2 ^ 63" by blast
  have "0 < r" using r(2) by (rule less_le_trans [rotated]) simp
  then show ?thesis
    using r by (simp add: float64_of_int64_def)
qed

lemma float64_of_int64_count:
  assumes "0 \<le> n" and "n \<le> 2 ^ 53"
  shows "float64_of_int64 n = Finite (of_int n)"
proof (cases "n = 2 ^ 53")
  case True
  then show ?thesis by (simp add: float64_of_int64_def f64_round_2_53)
next
  case False
  with assms have "n < 2 ^ 53" by simp
  with assms(1) show ?thesis by (rule float64_of_int64_exact)
qed

text \<open>
  For \<open>0 \<le> count \<le> 2^53\<close> and a positive \<open>perPage\<close>, \<open>TotalPage\<close> is the ceiling of the
  quotient, on every platform, and agrees with the integer version of the tests; the
  four cases of \<open>TestTotalPage\<close> are instances.  The proof takes the quotients below
  \<open>2^53\<close> first, then a \<open>perPage\<close> from \<open>2^53\<close> on, where the result is \<open>1\<close>.
\<close>

lemma TotalPage_quotient:
  assumes "0 < count" "count \<le> 2 ^ 53" "0 < perPage" "perPage < 2 ^ 53"
    and "rat_of_int count / rat_of_int perPage < 2 ^ 53"
  shows "TotalPage impl count perPage = \<lceil>rat_of_int count / rat_of_int perPage\<rceil>"
proof -
  define x where "x = rat_of_int count / rat_of_int perPage"
  have fc: "float64_of_int64 count = Finite (of_int count)"
    using assms(1,2) by (simp add: float64_of_int64_count)
  have fp: "float64_of_int64 perPage = Finite (of_int perPage)"
    using assms(3,4) by (simp add: float64_of_int64_exact)
  have d: "f64_div (Finite (of_int count)) (Finite (of_int perPage)) = f64_round x"
    using assms(1,3)
    by (simp add: f64_div_def is_inf_def is_zero_def fval_def x_def)
  obtain r where r: "f64_round x = Finite r"
    and lo: "of_int (\<lceil>x\<rceil> - 1) < r" and hi: "r \<le> of_int \<lceil>x\<rceil>"
    using f64_round_quotient [OF assms] unfolding x_def by blast
  have xpos: "0 < x" using assms(1,3) by (simp add: x_def)
  then have c1: "1 \<le> \<lceil>x\<rceil>" by simp
  have cr: "\<lceil>r\<rceil> = \<lceil>x\<rceil>"
    using lo hi by (intro ceiling_unique) simp_all
  have "0 \<le> rat_of_int (\<lceil>x\<rceil> - 1)" using c1 by simp
  with lo have rpos: "0 < r" by linarith
  have "x \<le> rat_of_int (2 ^ 53)" using assms(5) by (simp add: x_def)
  then have "\<lceil>x\<rceil> \<le> 2 ^ 53" by (simp only: ceiling_le)
  moreover have "(2::int) ^ 53 < 2 ^ 63" by simp
  ultimately have c63: "\<lceil>x\<rceil> < 2 ^ 63" by (rule le_less_trans)
  have "TotalPage impl count perPage = \<lceil>x\<rceil>"
    using c1 c63 rpos
    by (simp add: TotalPage_def fc fp d r Ceil_def Let_def cr int64_of_float64_def)
  then show ?thesis by (simp add: x_def)
qed

lemma TotalPage_large_perPage:
  assumes "0 < count" "count \<le> 2 ^ 53" "2 ^ 53 \<le> perPage" "perPage < 2 ^ 63"
  shows "TotalPage impl count perPage = 1"
    and "\<lceil>rat_of_int count / rat_of_int perPage\<rceil> = 1"
proof -
  have ppos: "0 < perPage" using assms(3) by (rule less_le_trans [rotated]) simp
  from float64_of_int64_pos [OF ppos assms(4)] assms(3) obtain p where
    fp: "float64_of_int64 perPage = Finite p" and p: "2 ^ 53 \<le> p" "p \<le> 2 ^ 63" by blast
  have p0: "0 < p" using p(1) by (rule less_le_trans [rotated]) simp
  have fc: "float64_of_int64 count = Finite (of_int count)"
    using assms(1,2) by (simp add: float64_of_int64_count)
  have c1: "1 \<le> rat_of_int count" using assms(1) by simp
  have c53: "rat_of_int count \<le> 2 ^ 53"
  proof -
    have "rat_of_int count \<le> of_int (2 ^ 53)" using assms(2) by (simp only: of_int_le_iff)
    then show ?thesis by simp
  qed
  define x where "x = rat_of_int count / p"
  have x1: "x \<le> 1"
    unfolding x_def using p0 c53 p(1) by (simp add: pos_divide_le_eq)
  have "pow2 (- 1022) \<le> pow2 (- 63)" by (rule pow2_mono) simp
  also have "\<dots> = 1 / 2 ^ 63" by (simp add: pow2_def)
  also have "\<dots> \<le> 1 / p" using p0 p(2) by (simp add: frac_le)
  also have "\<dots> \<le> x" unfolding x_def using p0 c1 by (simp add: divide_right_mono)
  finally have xl: "pow2 (- 1022) \<le> x" .
  from f64_round_unit [OF xl x1] obtain r where
    r: "f64_round x = Finite r" "0 < r" "r \<le> 1" by blast
  have cr: "\<lceil>r\<rceil> = 1"
    using r(2,3) by (intro ceiling_unique) simp_all
  have d: "f64_div (Finite (of_int count)) (Finite p) = f64_round x"
    using assms(1) p0
    by (simp add: f64_div_def is_inf_def is_zero_def fval_def x_def)
  show "TotalPage impl count perPage = 1"
    using r(2)
    by (simp add: TotalPage_def fc fp d r(1) Ceil_def Let_def cr int64_of_float64_def)
  have "rat_of_int count \<le> rat_of_int perPage"
    using assms(2,3) by (simp only: of_int_le_iff)
  moreover have "0 < rat_of_int perPage" using ppos by simp
  ultimately show "\<lceil>rat_of_int count / rat_of_int perPage\<rceil> = 1"
    using c1 by (intro ceiling_unique) (simp_all add: pos_divide_le_eq)
qed

lemma TotalPage_ceiling:
  assumes "0 \<le> count" "count \<le> 2 ^ 53" "0 < perPage" "perPage < 2 ^ 63"
  shows "TotalPage impl count perPage = \<lceil>rat_of_int count / rat_of_int perPage\<rceil>"
proof -
  consider (zero) "count = 0"
    | (one) "0 < count" "perPage = 1"
    | (quotient) "0 < count" "2 \<le> perPage" "perPage < 2 ^ 53"
    | (large) "0 < count" "2 ^ 53 \<le> perPage"
    using assms(1,3) by linarith
  then show ?thesis
  proof cases
    case zero
    from float64_of_int64_pos [OF assms(3,4)] obtain p where
      fp: "float64_of_int64 perPage = Finite p" and p: "0 < p" by blast
    have z: "float64_of_int64 0 = Finite 0"
      using float64_of_int64_exact [of 0] by simp
    show ?thesis
      using p
      by (simp add: zero TotalPage_def z fp f64_div_def is_inf_def is_zero_def sign_neg_def
          Ceil_def int64_of_float64_def)
  next
    case one
    have fc: "float64_of_int64 count = Finite (of_int count)"
      using assms(1,2) by (simp add: float64_of_int64_count)
    have f1: "float64_of_int64 1 = Finite 1"
      using float64_of_int64_exact [of 1] by simp
    have d: "f64_div (Finite (of_int count)) (Finite 1) = Finite (of_int count)"
      using one(1) fc
      by (simp add: f64_div_def is_inf_def is_zero_def fval_def float64_of_int64_def)
    have "count < 2 ^ 63" using assms(2) by simp
    then show ?thesis
      using one(1)
      by (simp add: one(2) TotalPage_def fc f1 d Ceil_def Let_def int64_of_float64_def)
  next
    case quotient
    have "rat_of_int count \<le> rat_of_int (2 ^ 53)"
      using assms(2) by (simp only: of_int_le_iff)
    moreover have "2 \<le> rat_of_int perPage" using quotient(2) by simp
    ultimately have "rat_of_int count / rat_of_int perPage < 2 ^ 53"
      by (simp add: pos_divide_less_eq)
    then show ?thesis
      using quotient assms(2,3) by (intro TotalPage_quotient)
  next
    case large
    then show ?thesis
      using TotalPage_large_perPage [OF large(1) assms(2) large(2) assms(4)] by simp
  qed
qed

lemma TotalPage_agrees_with_test:
  assumes "0 \<le> count" "count \<le> 2 ^ 53" "0 < perPage" "perPage < 2 ^ 63"
  shows "TotalPage impl count perPage = TotalPage_test count perPage"
  using assms by (simp add: TotalPage_ceiling ceiling_quotient_div TotalPage_test_def)

lemma TotalPage_examples:
  "TotalPage impl 20 10 = 2" "TotalPage impl 21 10 = 3"
  "TotalPage impl 0 10 = 0" "TotalPage impl 5 10 = 1"
  by (simp_all add: TotalPage_agrees_with_test TotalPage_test_def)




text \<open>
  No call of the repository has \<open>perPage = 0\<close>: \<open>GetAllUserWithPagination\<close>, the one caller of
  \<open>TotalPage\<close>, runs \<open>req.Default()\<close> first, which turns a \<open>PerPage\<close> of \<open>0\<close> into \<open>10\<close>.  A request
  without a page size gets the number of pages of ten items.
\<close>

lemma Default_PerPage: "PerPage (Default req) = (if PerPage req = 0 then 10 else PerPage req)"
  by (simp add: Default_def Let_def)

lemma GetAllUserWithPagination_MaxPage:
  assumes "count_query (Default req) = Inr count"
    and "find_query (Default req) = Inr found"
    and "0 \<le> count" "count \<le> 2 ^ 53"
    and "0 \<le> PerPage req" "PerPage req < 2 ^ 63"
  shows "\<exists>res. GetAllUserWithPagination impl count_query find_query req = Inr res
           \<and> Count (pagination res) = count
           \<and> MaxPage (pagination res)
               = \<lceil>rat_of_int count / rat_of_int (if PerPage req = 0 then 10 else PerPage req)\<rceil>"
proof -
  have "0 < PerPage (Default req)" "PerPage (Default req) < 2 ^ 63"
    using assms(5,6) by (simp_all add: Default_PerPage)
  then have "TotalPage impl count (PerPage (Default req))
      = \<lceil>rat_of_int count / rat_of_int (PerPage (Default req))\<rceil>"
    using assms(3,4) by (intro TotalPage_ceiling)
  then show ?thesis
    using assms(1,2) by (simp add: GetAllUserWithPagination_def Let_def Default_PerPage)
qed




section \<open>Properties of the token codec\<close>


lemma KEY_decoded: "DecodeString KEY = Inr key_bytes"
  by (simp add: KEY_def key_bytes_def fromHexChar_def)

lemma fromHexChar_hexdigit: "n < 16 \<Longrightarrow> fromHexChar (hexdigit n) = Some n"
  by (auto simp add: fromHexChar_def hexdigit_def Let_def)

lemma DecodeString_Sprintf_x: "DecodeString (Sprintf_x bs) = Inr bs"
proof (induction bs)
  case Nil
  show ?case by simp
next
  case (Cons c cs)
  have "(of_char c :: nat) < 256" by (rule nat_of_char_less_256)
  then have a: "(of_char c :: nat) div 16 < 16" by arith
  have b: "(of_char c :: nat) mod 16 < 16" by simp
  have c: "char_of (16 * ((of_char c :: nat) div 16) + of_char c mod 16) = c"
    by simp
  show ?case
    using Cons.IH by (simp add: fromHexChar_hexdigit a b c)
qed

lemma NewCipher_key: "NewCipher key_bytes = Inr key_bytes"
  by (simp add: NewCipher_def key_bytes_def)

lemma AESEncrypt_eq:
  "AESEncrypt gcm (Some f) s =
     Inr (Sprintf_x (map f [0 ..< NonceSize (gcm key_bytes)]
            @ Seal (gcm key_bytes) (map f [0 ..< NonceSize (gcm key_bytes)]) s))"
  by (simp add: AESEncrypt_def KEY_decoded NewCipher_key Let_def)

lemma AESEncrypt_None: "AESEncrypt gcm None s = Inl ErrRandRead"
  by (simp add: AESEncrypt_def KEY_decoded NewCipher_key Let_def)

lemma AESDecrypt_body_eq:
  "AESDecrypt_body gcm c =
     (case DecodeString c of
        Inl err \<Rightarrow> Returned (Inl (ErrorNew ''error in decoding encrypted string''))
      | Inr enc \<Rightarrow>
          if length enc < NonceSize (gcm key_bytes)
          then Returned (Inl (ErrorNew ''ciphertext too short''))
          else (case Open (gcm key_bytes) (take (NonceSize (gcm key_bytes)) enc)
                       (drop (NonceSize (gcm key_bytes)) enc) of
                  Opened plaintext \<Rightarrow> Returned (Inr plaintext)
                | AuthError \<Rightarrow> Returned (Inl (ErrorNew ''error decrypting''))
                | OpenPanic \<Rightarrow> Panicked))"
  by (simp add: AESDecrypt_body_def KEY_decoded NewCipher_key Let_def split: sum.splits)

lemma AES_roundtrip:
  assumes "\<And>nonce pt. length nonce = NonceSize (gcm key_bytes) \<Longrightarrow>
              Open (gcm key_bytes) nonce (Seal (gcm key_bytes) nonce pt) = Opened pt"
    and "AESEncrypt gcm rnd s = Inr c"
  shows "AESDecrypt gcm c = Inr s"
proof (cases rnd)
  case None
  with assms(2) show ?thesis by (simp add: AESEncrypt_None)
next
  case (Some f)
  define nonce where "nonce = map f [0 ..< NonceSize (gcm key_bytes)]"
  have len: "length nonce = NonceSize (gcm key_bytes)" by (simp add: nonce_def)
  have c: "c = Sprintf_x (nonce @ Seal (gcm key_bytes) nonce s)"
    using assms(2) Some by (simp add: AESEncrypt_eq nonce_def)
  show ?thesis
    by (simp add: AESDecrypt_def AESDecrypt_body_eq c DecodeString_Sprintf_x len assms(1))
qed


text \<open>
  Claim C9.  Whenever \<open>AESEncrypt s\<close> succeeds with the ciphertext \<open>c\<close>, \<open>AESDecrypt c\<close>
  succeeds and returns \<open>s\<close>.  The hexadecimal encoding and the prepending and splitting
  of the nonce are the code of the repository; the AEAD is the library's, assumed to open
  what it sealed under the same nonce.
\<close>

theorem AESDecrypt_AESEncrypt:
  assumes "\<And>nonce pt. length nonce = NonceSize (gcm key_bytes) \<Longrightarrow>
              Open (gcm key_bytes) nonce (Seal (gcm key_bytes) nonce pt) = Opened pt"
    and "AESEncrypt gcm rnd s = Inr c"
  shows "AESDecrypt gcm c = Inr s"
  using assms by (rule AES_roundtrip)

lemma demo_gcm_contract:
  "length nonce = NonceSize (demo_gcm k) \<Longrightarrow>
     Open (demo_gcm k) nonce (Seal (demo_gcm k) nonce pt) = Opened pt"
  by (simp add: demo_gcm_def)

lemma upt_12: "[0 ..< 12] = [0, 1, 2, 3, 4, 5, 6, 7, 8, 9, 10, 11 :: nat]"
  by (simp add: upt_conv_Cons)

lemma demo_encrypt:
  "AESEncrypt demo_gcm (Some (\<lambda>i. CHR ''n'')) ''a_b''
     = Inr ''6e6e6e6e6e6e6e6e6e6e6e6e615f626e6e6e6e6e6e6e6e6e6e6e6e''"
  by (simp add: AESEncrypt_eq demo_gcm_def upt_12 hexdigit_def char_of_eq_iff)

theorem AESDecrypt_AESEncrypt_witness:
  "AESEncrypt demo_gcm (Some (\<lambda>i. CHR ''n'')) ''a_b''
     = Inr ''6e6e6e6e6e6e6e6e6e6e6e6e615f626e6e6e6e6e6e6e6e6e6e6e6e''
   \<and> AESDecrypt demo_gcm ''6e6e6e6e6e6e6e6e6e6e6e6e615f626e6e6e6e6e6e6e6e6e6e6e6e'' = Inr ''a_b''"
  using AESDecrypt_AESEncrypt [of demo_gcm, OF demo_gcm_contract demo_encrypt] demo_encrypt
  by simp

text \<open>
  Claim C8.  \<open>AESDecrypt\<close> returns for every input: a panic of the body is recovered into
  the error "ciphertext too short".  It returns an error when the input is not
  hexadecimal, when the decoded bytes are shorter than a nonce, and when the
  authentication fails; it returns a plaintext only when \<open>Open\<close> authenticated it.
\<close>

theorem AESDecrypt_rejects:
  "(\<forall>e. DecodeString c = Inl e \<longrightarrow>
        AESDecrypt gcm c = Inl (ErrorNew ''error in decoding encrypted string''))
   \<and> (\<forall>enc. DecodeString c = Inr enc \<and> length enc < NonceSize (gcm key_bytes) \<longrightarrow>
        AESDecrypt gcm c = Inl (ErrorNew ''ciphertext too short''))
   \<and> (\<forall>enc. DecodeString c = Inr enc \<and> NonceSize (gcm key_bytes) \<le> length enc
          \<and> Open (gcm key_bytes) (take (NonceSize (gcm key_bytes)) enc)
               (drop (NonceSize (gcm key_bytes)) enc) = AuthError \<longrightarrow>
        AESDecrypt gcm c = Inl (ErrorNew ''error decrypting''))
   \<and> (\<forall>enc. DecodeString c = Inr enc \<and> NonceSize (gcm key_bytes) \<le> length enc
          \<and> Open (gcm key_bytes) (take (NonceSize (gcm key_bytes)) enc)
               (drop (NonceSize (gcm key_bytes)) enc) = OpenPanic \<longrightarrow>
        AESDecrypt gcm c = Inl (ErrorNew ''ciphertext too short''))
   \<and> (\<forall>s. AESDecrypt gcm c = Inr s \<longrightarrow>
        (\<exists>enc. DecodeString c = Inr enc \<and> NonceSize (gcm key_bytes) \<le> length enc
          \<and> Open (gcm key_bytes) (take (NonceSize (gcm key_bytes)) enc)
               (drop (NonceSize (gcm key_bytes)) enc) = Opened s))"
  by (auto simp add: AESDecrypt_def AESDecrypt_body_eq split: sum.splits if_splits open_result.splits)

lemma DecodeString_zz: "DecodeString ''zz'' = Inl (InvalidByteError CHR ''z'')"
  by (simp add: fromHexChar_def char_of_eq_iff)

lemma DecodeString_short: "DecodeString ''6e6e'' = Inr ''nn''"
  by (simp add: fromHexChar_def char_of_eq_iff)

lemma DecodeString_tampered:
  "DecodeString ''6e6e6e6e6e6e6e6e6e6e6e6f615f626e6e6e6e6e6e6e6e6e6e6e6e''
     = Inr ''nnnnnnnnnnnoa_bnnnnnnnnnnnn''"
  by (simp add: fromHexChar_def char_of_eq_iff)

theorem AESDecrypt_rejects_witness:
  "AESDecrypt demo_gcm ''zz'' = Inl (ErrorNew ''error in decoding encrypted string'')
   \<and> AESDecrypt demo_gcm ''6e6e'' = Inl (ErrorNew ''ciphertext too short'')
   \<and> AESDecrypt demo_gcm ''6e6e6e6e6e6e6e6e6e6e6e6f615f626e6e6e6e6e6e6e6e6e6e6e6e''
       = Inl (ErrorNew ''error decrypting'')
   \<and> AESDecrypt panic_gcm ''6e6e6e6e6e6e6e6e6e6e6e6f615f626e6e6e6e6e6e6e6e6e6e6e6e''
       = Inl (ErrorNew ''ciphertext too short'')"
proof -
  have 1: "AESDecrypt demo_gcm ''zz'' = Inl (ErrorNew ''error in decoding encrypted string'')"
    using AESDecrypt_rejects [of "''zz''" demo_gcm] DecodeString_zz by simp
  have 2: "AESDecrypt demo_gcm ''6e6e'' = Inl (ErrorNew ''ciphertext too short'')"
    using AESDecrypt_rejects [of "''6e6e''" demo_gcm] DecodeString_short
    by (simp add: demo_gcm_def)
  have 3: "AESDecrypt demo_gcm ''6e6e6e6e6e6e6e6e6e6e6e6f615f626e6e6e6e6e6e6e6e6e6e6e6e''
       = Inl (ErrorNew ''error decrypting'')"
    using AESDecrypt_rejects [of "''6e6e6e6e6e6e6e6e6e6e6e6f615f626e6e6e6e6e6e6e6e6e6e6e6e''" demo_gcm]
      DecodeString_tampered
    by (simp add: demo_gcm_def)
  have 4: "AESDecrypt panic_gcm ''6e6e6e6e6e6e6e6e6e6e6e6f615f626e6e6e6e6e6e6e6e6e6e6e6e''
       = Inl (ErrorNew ''ciphertext too short'')"
    using AESDecrypt_rejects [of "''6e6e6e6e6e6e6e6e6e6e6e6f615f626e6e6e6e6e6e6e6e6e6e6e6e''" panic_gcm]
      DecodeString_tampered
    by (simp add: demo_gcm_def panic_gcm_def)
  show ?thesis using 1 2 3 4 by simp
qed


section \<open>Properties of the email verification\<close>

text \<open>The mail that \<open>makeVerificationEmail\<close> drafts carries the link with \<open>verification_token\<close>.\<close>

lemma makeVerificationEmail_token:
  assumes "makeVerificationEmail w email = Inr draft"
  shows "\<exists>token. verification_token w email = Inr token
           \<and> render_mail w email (LOCAL_URL @ ''/'' @ VERIFY_EMAIL_ROUTE @ ''?token='' @ token)
               = Inr (body draft)"
  using assms
  by (auto simp add: makeVerificationEmail_def Let_def split: sum.splits)


lemma Split_not_Nil: "Split s c \<noteq> []"
  by (induction s) (auto split: list.splits)

lemma hd_Split: "hd (Split s c) = takeWhile (\<lambda>x. x \<noteq> c) s"
  by (induction s) (auto split: list.splits simp: Split_not_Nil)

lemma Split_nth_0: "Split s c ! 0 = takeWhile (\<lambda>x. x \<noteq> c) s"
  using hd_Split [of s c] Split_not_Nil [of s c] by (simp add: hd_conv_nth)

lemma Split_nth_1:
  "c \<in> set s \<Longrightarrow> Split s c ! 1 = takeWhile (\<lambda>x. x \<noteq> c) (tl (dropWhile (\<lambda>x. x \<noteq> c) s))"
proof (induction s)
  case Nil
  then show ?case by simp
next
  case (Cons a s)
  show ?case
  proof (cases "a = c")
    case True
    then show ?thesis using Split_nth_0 [of s c] by simp
  next
    case False
    with Cons.prems have "c \<in> set s" by simp
    then have ih: "Split s c ! 1 = takeWhile (\<lambda>x. x \<noteq> c) (tl (dropWhile (\<lambda>x. x \<noteq> c) s))"
      by (rule Cons.IH)
    obtain p ps where sp: "Split s c = p # ps"
      using Split_not_Nil [of s c] by (cases "Split s c") auto
    show ?thesis using False ih by (simp add: sp)
  qed
qed

lemma second_field_plaintext:
  assumes "CHR ''_'' \<in> set email"
  shows "Split (email @ ''_'' @ expired) CHR ''_'' ! 1 = second_field email"
proof -
  let ?P = "\<lambda>x. x \<noteq> CHR ''_''"
  have ne: "dropWhile ?P email \<noteq> []"
    using assms by (simp add: dropWhile_eq_Nil_conv)
  have d: "dropWhile ?P (email @ ''_'' @ expired) = dropWhile ?P email @ ''_'' @ expired"
    using assms by (intro dropWhile_append1) auto
  have t: "tl (dropWhile ?P email @ ''_'' @ expired) = tl (dropWhile ?P email) @ ''_'' @ expired"
    using ne by simp
  have tw: "takeWhile ?P (b @ ''_'' @ expired) = takeWhile ?P b" for b
    by (induction b) auto
  have "CHR ''_'' \<in> set (email @ ''_'' @ expired)" by simp
  then show ?thesis
    by (simp only: Split_nth_1 d t tw second_field_def)
qed

text \<open>
  Claim C10, amended.  The token that \<open>makeVerificationEmail\<close> builds for an address with an
  underscore decrypts, at verification time, to the text \<open>email + "_" + expired\<close>;
  \<open>VerifyEmail\<close> splits it at every underscore and parses the second piece, which is the
  part of the address between its first underscore and the next one (or the end of the
  address).  Whenever that part is no timestamp, the token is rejected with
  \<open>ErrTokenInvalid\<close>, whatever the expiry is.  The world \<open>w\<close> is the one in which the mail
  was made, \<open>w'\<close> the one of the verification, with the same cipher.
\<close>

theorem VerifyEmail_underscore_email:
  assumes "\<And>nonce pt. length nonce = NonceSize (NewGCM w key_bytes) \<Longrightarrow>
              Open (NewGCM w key_bytes) nonce (Seal (NewGCM w key_bytes) nonce pt) = Opened pt"
    and "NewGCM w' = NewGCM w"
    and "verification_token w email = Inr token"
    and "CHR ''_'' \<in> set email"
    and "Parse w' (second_field email) = None"
  shows "AESDecrypt (NewGCM w') token = Inr (verification_plaintext w email)
       \<and> VerifyEmail w' db token = (db, no_response, Some ErrTokenInvalid)"
proof -
  have dec: "AESDecrypt (NewGCM w') token = Inr (verification_plaintext w email)"
    using AES_roundtrip [of "NewGCM w", OF assms(1)] assms(2,3) by (simp add: verification_token_def)
  have pt: "verification_plaintext w email = email @ ''_'' @ Format w (Now w 0 + Hour * 24)"
    by (simp add: verification_plaintext_def)
  have sp: "Split (verification_plaintext w email) CHR ''_'' ! 1 = second_field email"
    unfolding pt using assms(4) by (rule second_field_plaintext)
  have "CHR ''_'' \<in> set (verification_plaintext w email)" by (simp add: pt)
  then have "VerifyEmail w' db token = (db, no_response, Some ErrTokenInvalid)"
    by (simp add: VerifyEmail_def dec sp assms(5) Let_def del: One_nat_def)
  with dec show ?thesis by simp
qed


lemma john_token_made: "verification_token demo_world john_email = Inr john_token"
  by code_simp

theorem VerifyEmail_underscore_email_witness:
  "verification_token demo_world john_email = Inr john_token
   \<and> CHR ''_'' \<in> set john_email
   \<and> Parse demo_world (second_field john_email) = None
   \<and> AESDecrypt (NewGCM demo_world) john_token = Inr (verification_plaintext demo_world john_email)
   \<and> VerifyEmail demo_world john_db john_token = (john_db, no_response, Some ErrTokenInvalid)"
proof -
  have c: "length nonce = NonceSize (NewGCM demo_world key_bytes) \<Longrightarrow>
             Open (NewGCM demo_world key_bytes) nonce (Seal (NewGCM demo_world key_bytes) nonce pt)
               = Opened pt" for nonce pt
    by (simp add: demo_world_def demo_gcm_contract)
  have u: "CHR ''_'' \<in> set john_email"
    by (simp add: john_email_def)
  have p: "Parse demo_world (second_field john_email) = None"
    by code_simp
  show ?thesis
    using VerifyEmail_underscore_email
            [of demo_world demo_world john_email john_token john_db, OF c refl john_token_made u p]
          john_token_made u p
    by simp
qed

text \<open>
  The claim as it is stated, for every address with an underscore, fails for the address
  \<open>"a_2030-01-02 00:00:00_b"@x.io\<close>: the second piece of the split is a timestamp of the
  layout, one day after the demo world's first reading, so the token passes the parse and the
  expiry check, and the lookup of the first piece of the address finds no user.
\<close>

theorem VerifyEmail_underscore_counterexample:
  "CHR ''_'' \<in> set quoted_email
   \<and> map Email (users quoted_db) = [quoted_email]
   \<and> verification_token demo_world quoted_email = Inr quoted_token
   \<and> VerifyEmail demo_world quoted_db quoted_token = (quoted_db, no_response, Some ErrUserNotFound)
   \<and> ErrUserNotFound \<noteq> ErrTokenInvalid"
  by code_simp

section \<open>Properties of the JWT service\<close>


lemma ParseWithClaims_keyFunc_error:
  assumes "ParseUnverified lib kind s = Inr t" and "keyFunc t = Inl err"
  shows "ParseWithClaims lib kind keyFunc s = Inl (Unverifiable err)"
  using assms by (simp add: ParseWithClaims_def)

lemma ParseWithClaims_Inr:
  assumes "ParseWithClaims lib kind keyFunc s = Inr t'"
  shows "\<exists>t key. decode lib kind s = Inr t \<and> length (Split s CHR ''.'') = 3
           \<and> keyFunc t = Inr key \<and> t' = t \<lparr> Valid := True \<rparr>"
  using assms
  by (auto simp add: ParseWithClaims_def ParseUnverified_def
      split: sum.splits option.splits if_splits)

lemma ValidateToken_101_empty:
  "ValidateToken_101 lib j [] = Inl (ErrorNew ''token is empty'')"
  by (simp add: ValidateToken_101_def)

lemma ValidateToken_101_segments:
  assumes "s \<noteq> []" and "length (Split s CHR ''.'') \<noteq> 3"
  shows "ValidateToken_101 lib j s = Inl (ErrorNew ''token contains an invalid number of segments'')"
  using assms by (simp add: ValidateToken_101_def)

lemma ValidateToken_101_method:
  assumes "s \<noteq> []" and "length (Split s CHR ''.'') = 3"
    and "decode lib IntoCustomClaims s = Inr t" and "Method t \<noteq> SigningMethodHS256"
  shows "ValidateToken_101 lib j s =
           Inl (Wrap ''invalid token''
                  (Unverifiable (ErrorNew (''unexpected signing method '' @ Header_alg t))))"
  using assms
  by (simp add: ValidateToken_101_def ParseWithClaims_def ParseUnverified_def)

lemma ValidateToken_101_Inr:
  assumes "ValidateToken_101 lib j s = Inr t"
  shows "Method t = SigningMethodHS256 \<and> s \<noteq> [] \<and> length (Split s CHR ''.'') = 3 \<and> Valid t"
proof -
  from assms have ne: "s \<noteq> []" and len: "length (Split s CHR ''.'') = 3"
    by (auto simp add: ValidateToken_101_def Let_def split: if_splits)
  let ?kf = "\<lambda>token. if Method token \<noteq> SigningMethodHS256
                then Inl (ErrorNew (''unexpected signing method '' @ Header_alg token))
                else Inr (secretKey j)"
  from assms ne len have p: "ParseWithClaims lib IntoCustomClaims ?kf s = Inr t"
    by (auto simp add: ValidateToken_101_def Let_def split: if_splits sum.splits)
  from ParseWithClaims_Inr [OF p] obtain t0 key where
    "?kf t0 = Inr key" and t: "t = t0 \<lparr> Valid := True \<rparr>" by blast
  then have "Method t0 = SigningMethodHS256" by (auto split: if_splits)
  with t ne len show ?thesis by simp
qed

text \<open>
  Claim C7.  The claim: \<open>ValidateToken\<close> returns an error for the empty text, for a text
  that does not have three segments, and for a token of any method but HS256, HS512
  included.  The \<open>ValidateToken\<close> at line 101 does (the four lemmas above).  The
  \<open>ValidateToken\<close> at line 216 takes \<open>parseToken\<close> for its key function, which lets every
  method of the HMAC family pass: a token that names HS384 or HS512 and is signed with
  the secret under that method is returned as valid.
\<close>

theorem ValidateToken_216_accepts_HMAC:
  assumes "length (Split s CHR ''.'') = 3"
    and "decode lib IntoMapClaims s = Inr t"
    and "Method t = SigningMethodHMAC h"
    and "ClaimsValid lib (Claims t) = None"
    and "Verify lib (Method t) s (secretKey j) = None"
  shows "ValidateToken_216 lib j s = Inr (t \<lparr> Valid := True \<rparr>)"
  using assms
  by (simp add: ValidateToken_216_def ParseWithClaims_def ParseUnverified_def parseToken_209_def)

theorem ValidateToken_216_accepts_HMAC_witness:
  "Method hs512_token = SigningMethodHS512
   \<and> SigningMethodHS512 \<noteq> SigningMethodHS256
   \<and> ValidateToken_216 (stub_lib hs512_token) demo_service ''h.c.s''
       = Inr (hs512_token \<lparr> Valid := True \<rparr>)
   \<and> ValidateToken_101 (stub_lib hs512_token) demo_service ''h.c.s''
       = Inl (Wrap ''invalid token'' (Unverifiable (ErrorNew ''unexpected signing method HS512'')))"
proof -
  have 1: "ValidateToken_216 (stub_lib hs512_token) demo_service ''h.c.s''
       = Inr (hs512_token \<lparr> Valid := True \<rparr>)"
    using ValidateToken_216_accepts_HMAC [of "''h.c.s''" "stub_lib hs512_token" hs512_token SHA512 demo_service]
    by (simp add: stub_lib_def hs512_token_def SigningMethodHS512_def)
  have 2: "ValidateToken_101 (stub_lib hs512_token) demo_service ''h.c.s''
       = Inl (Wrap ''invalid token'' (Unverifiable (ErrorNew ''unexpected signing method HS512'')))"
    using ValidateToken_101_method [of "''h.c.s''" "stub_lib hs512_token" hs512_token demo_service]
    by (simp add: stub_lib_def hs512_token_def SigningMethodHS512_def SigningMethodHS256_def)
  show ?thesis using 1 2
    by (simp add: hs512_token_def SigningMethodHS512_def SigningMethodHS256_def)
qed

text \<open>
  Claim C6.  The claim: \<open>GetRoleByToken\<close> returns an error, and does not panic, when the
  validated token has no \<open>role\<close> claim or one that is no string.  The code asserts
  \<open>claims["role"].(string)\<close> without the \<open>ok\<close> form: for every token that \<open>ValidateToken\<close>
  accepts and whose claims have no string under \<open>role\<close>, it panics.
\<close>

theorem GetRoleByToken_230_panics:
  assumes "ValidateToken_216 lib j s = Inr t"
    and "Claims t = MapClaims claims"
    and "\<And>role. map_of claims ''role'' \<noteq> Some (JString role)"
  shows "GetRoleByToken_230 lib j s = Panicked"
  using assms
  by (auto simp add: GetRoleByToken_230_def split: option.splits json.splits)

lemma stub_validates:
  "Method t = SigningMethodHMAC h \<Longrightarrow>
     ValidateToken_216 (stub_lib t) j ''h.c.s'' = Inr (t \<lparr> Valid := True \<rparr>)"
  by (simp add: ValidateToken_216_def ParseWithClaims_def ParseUnverified_def parseToken_209_def
      stub_lib_def)

theorem GetRoleByToken_230_panics_witness:
  "ValidateToken_216 (stub_lib no_role_token) demo_service ''h.c.s''
     = Inr (no_role_token \<lparr> Valid := True \<rparr>)
   \<and> GetRoleByToken_230 (stub_lib no_role_token) demo_service ''h.c.s'' = Panicked
   \<and> GetRoleByToken_230 (stub_lib numeric_role_token) demo_service ''h.c.s'' = Panicked"
proof -
  have v1: "ValidateToken_216 (stub_lib no_role_token) demo_service ''h.c.s''
     = Inr (no_role_token \<lparr> Valid := True \<rparr>)"
    by (rule stub_validates [of _ SHA256]) (simp add: no_role_token_def SigningMethodHS256_def)
  have v2: "ValidateToken_216 (stub_lib numeric_role_token) demo_service ''h.c.s''
     = Inr (numeric_role_token \<lparr> Valid := True \<rparr>)"
    by (rule stub_validates [of _ SHA256]) (simp add: numeric_role_token_def SigningMethodHS256_def)
  have 1: "GetRoleByToken_230 (stub_lib no_role_token) demo_service ''h.c.s'' = Panicked"
    using GetRoleByToken_230_panics
            [OF v1, of "[(''user_id'', JString ''test-user''), (''exp'', JNumber 1893456900)]"]
    by (simp add: no_role_token_def)
  have 2: "GetRoleByToken_230 (stub_lib numeric_role_token) demo_service ''h.c.s'' = Panicked"
    using GetRoleByToken_230_panics
            [OF v2, of "[(''user_id'', JString ''test-user''), (''role'', JNumber 7)]"]
    by (simp add: numeric_role_token_def)
  show ?thesis using v1 1 2 by simp
qed

lemma GetRoleByToken_230_returns:
  assumes "GetRoleByToken_230 lib j s = Returned (Inr role)"
  shows "\<exists>t claims. ValidateToken_216 lib j s = Inr t \<and> Claims t = MapClaims claims
           \<and> map_of claims ''role'' = Some (JString role)"
  using assms
  by (auto simp add: GetRoleByToken_230_def
      split: sum.splits Claims.splits option.splits json.splits)

text \<open>
  \<open>GetUserIDByToken\<close> at line 132 has the checked form of the assertion: it returns the error
  of \<open>ValidateToken\<close>, or the error "invalid token claims", or the \<open>UserID\<close> of the claims.
  \<open>GetUserIDByToken\<close> at line 220 does not panic on a token that \<open>ValidateToken\<close> accepts
  with map claims, but it returns no error either when the claims have no \<open>user_id\<close>: it
  returns the text that \<open>%v\<close> prints for \<open>nil\<close>.
\<close>

lemma GetUserIDByToken_132_error:
  "ValidateToken_101 lib j s = Inl err \<Longrightarrow> GetUserIDByToken_132 lib j s = Inl err"
  "ValidateToken_101 lib j s = Inr t \<Longrightarrow> Claims t = MapClaims m \<Longrightarrow>
     GetUserIDByToken_132 lib j s = Inl (ErrorNew ''invalid token claims'')"
  "ValidateToken_101 lib j s = Inr t \<Longrightarrow> Claims t = CustomClaims c \<Longrightarrow>
     GetUserIDByToken_132 lib j s = Inr (claim_UserID c)"
  by (simp_all add: GetUserIDByToken_132_def)

lemma GetUserIDByToken_220_no_user_id:
  assumes "ValidateToken_216 lib j s = Inr t"
    and "Claims t = MapClaims claims"
    and "map_of claims ''user_id'' = None"
  shows "GetUserIDByToken_220 Sprintf_v lib j s = Returned (Inr (Sprintf_v None))"
  using assms by (simp add: GetUserIDByToken_220_def)




text \<open>
  The seconds that \<open>GenerateAccessToken\<close> (line 241) reports: \<open>899\<close> when the clock moves
  between its first two readings, by a microsecond in the demo world, and \<open>900\<close> when it
  does not.
\<close>

lemma GenerateAccessToken_241_examples:
  "GenerateAccessToken_241 conv_amd64 demo_world (stub_lib hs512_token) demo_service ''u1'' ''user''
     = Inr (''header.claims.signature'', 899)"
  "GenerateAccessToken_241 conv_amd64 (demo_world \<lparr> Now := (\<lambda>n. 1893456000000000000) \<rparr>)
       (stub_lib hs512_token) demo_service ''u1'' ''user''
     = Inr (''header.claims.signature'', 900)"
  by code_simp+


section \<open>Properties of the login\<close>

lemma CheckPassword_cases:
  "CheckPassword w h p = (case bcrypt_compare w h p of Some err \<Rightarrow> (False, Some err) | None \<Rightarrow> (True, None))"
  by (simp add: CheckPassword_def)

lemma userService_Verify_unknown_email:
  assumes "GetUserByEmail (db_fault w) db (req_Email req) = Inl e"
  shows "userService_Verify w jwt db req = (db, Inl (ErrorNew ''invalid email or password''))"
  using assms by (simp add: userService_Verify_def)

lemma userService_Verify_wrong_password:
  assumes "GetUserByEmail (db_fault w) db (req_Email req) = Inr user"
    and "bcrypt_compare w (Password user) (req_Password req) = Some e"
  shows "userService_Verify w jwt db req = (db, Inl (ErrorNew ''invalid email or password''))"
  using assms by (simp add: userService_Verify_def CheckPassword_def)

text \<open>
  Claim C1.  The claim: an unknown email and a wrong password give the same generic error,
  with the message "invalid email or password".  \<open>Verify\<close> of the user service does (the
  two lemmas above).  \<open>Login\<close> of the auth service returns \<open>dto.ErrEmailNotFound\<close>, whose
  message is "email not found", for an email that the lookup does not find, and
  \<open>dto.ErrPasswordNotMatch\<close> for a wrong password of a verified user.
\<close>

theorem authService_Login_distinguishes:
  assumes "CheckEmail (db_fault w) db (req_Email unknown) = Inl e"
    and "CheckEmail (db_fault w) db (req_Email known) = Inr user"
    and "IsVerified user"
    and "bcrypt_compare w (Password user) (req_Password known) = Some e'"
  shows "authService_Login w dto gen config db unknown = (db, Inl ErrEmailNotFound)
       \<and> authService_Login w dto gen config db known = (db, Inl (ErrPasswordNotMatch dto))
       \<and> ErrEmailNotFound = ErrorNew ''email not found''"
  using assms
  by (simp add: authService_Login_def CheckPassword_def ErrEmailNotFound_def)

lemma userService_Verify_error_unchanged:
  assumes "userService_Verify w jwt db req = (db', Inl err)"
  shows "db' = db"
  using assms
  by (auto simp add: userService_Verify_def Let_def
      split: sum.splits prod.splits if_splits option.splits)

lemma userService_Verify_success:
  assumes "userService_Verify w jwt db req = (db', Inr resp)"
  shows "\<exists>user. GetUserByEmail (db_fault w) db (req_Email req) = Inr user
           \<and> users db' = users db
           \<and> refresh_tokens db' =
               filter (\<lambda>t. UserID t \<noteq> ID user) (refresh_tokens db)
               @ [\<lparr> UserID = ID user, Token = RefreshToken_str resp,
                     ExpiresAt = snd (GenerateRefreshToken jwt) \<rparr>]"
  using assms
  by (auto simp add: userService_Verify_def Let_def DeleteByUserID_def Create_def insert_token_def
      split: sum.splits prod.splits if_splits option.splits)

text \<open>
  Claim C4.  The claim: the login deletes the old refresh tokens of the user and inserts
  the new one in one transaction, and a failure leaves the stored tokens as they were.
  \<open>Verify\<close> of the user service does: every error it returns comes with the store
  unchanged (the two lemmas above describe its two outcomes).  \<open>Login\<close> of the auth service
  has no transaction: when the delete succeeds and the insert fails, it returns the
  error of the insert and the old tokens of the user are gone.
\<close>

theorem authService_Login_partial:
  assumes "CheckEmail (db_fault w) db (req_Email req) = Inr user"
    and "IsVerified user"
    and "bcrypt_compare w (Password user) (req_Password req) = None"
    and "gen (ID user) (Role user) = Inr (accessToken, expiresIn)"
    and "db_fault w Call_DeleteRefreshTokensByUserID = None"
    and "db_fault w Call_CreateRefreshToken = Some err"
  shows "authService_Login w dto gen config db req =
           (db \<lparr> refresh_tokens := filter (\<lambda>t. UserID t \<noteq> ID user) (refresh_tokens db) \<rparr>,
            Inl err)"
  using assms
  by (simp add: authService_Login_def CheckPassword_def Let_def drop_error_def
      DeleteRefreshTokensByUserID_def CreateRefreshToken_def)


lemma demo_CheckEmail_unknown:
  "CheckEmail (db_fault demo_world) login_db ''nobody@example.com'' = Inl ErrRecordNotFound"
  by code_simp

lemma demo_CheckEmail_known:
  "CheckEmail (db_fault demo_world) login_db ''user@example.com'' = Inr verified_user"
  by code_simp

theorem authService_Login_distinguishes_witness:
  "authService_Login demo_world demo_dto demo_generate (demo_config True) login_db
       \<lparr> req_Email = ''nobody@example.com'', req_Password = ''password123'' \<rparr>
     = (login_db, Inl ErrEmailNotFound)
   \<and> authService_Login demo_world demo_dto demo_generate (demo_config True) login_db
       \<lparr> req_Email = ''user@example.com'', req_Password = ''wrong'' \<rparr>
     = (login_db, Inl (ErrPasswordNotMatch demo_dto))
   \<and> ErrEmailNotFound = ErrorNew ''email not found''
   \<and> ErrEmailNotFound \<noteq> ErrPasswordNotMatch demo_dto"
proof -
  have v: "IsVerified verified_user"
    by (simp add: verified_user_def)
  have b: "bcrypt_compare demo_world (Password verified_user) ''wrong'' = Some (ErrorNew ''mismatch'')"
    by (simp add: demo_world_def verified_user_def demo_user_def)
  have "ErrEmailNotFound \<noteq> ErrPasswordNotMatch demo_dto"
    by (simp add: ErrEmailNotFound_def demo_dto_def)
  then show ?thesis
    using authService_Login_distinguishes
      [of demo_world login_db "\<lparr> req_Email = ''nobody@example.com'', req_Password = ''password123'' \<rparr>"
          ErrRecordNotFound "\<lparr> req_Email = ''user@example.com'', req_Password = ''wrong'' \<rparr>"
          verified_user "ErrorNew ''mismatch''" demo_dto demo_generate "demo_config True"]
      demo_CheckEmail_unknown demo_CheckEmail_known v b
    by simp
qed

lemma failing_CheckEmail_known:
  "CheckEmail (db_fault (failing_world [Call_CreateRefreshToken])) login_db ''user@example.com''
     = Inr verified_user"
  by code_simp

theorem authService_Login_partial_witness:
  "authService_Login (failing_world [Call_CreateRefreshToken]) demo_dto demo_generate
       (demo_config True) login_db
       \<lparr> req_Email = ''user@example.com'', req_Password = ''password123'' \<rparr>
     = (login_db \<lparr> refresh_tokens := [] \<rparr>, Inl ErrDatabase)
   \<and> findable login_db ''old-token''
   \<and> refresh_tokens (login_db \<lparr> refresh_tokens := [] \<rparr>) = []"
proof -
  let ?w = "failing_world [Call_CreateRefreshToken]"
  have v: "IsVerified verified_user"
    by (simp add: verified_user_def)
  have b: "bcrypt_compare ?w (Password verified_user) ''password123'' = None"
    by (simp add: failing_world_def demo_world_def verified_user_def demo_user_def)
  have g: "demo_generate (ID verified_user) (Role verified_user) = Inr (''access-token'', 900)"
    by (simp add: demo_generate_def)
  have d: "db_fault ?w Call_DeleteRefreshTokensByUserID = None"
    by (simp add: failing_world_def)
  have c: "db_fault ?w Call_CreateRefreshToken = Some ErrDatabase"
    by (simp add: failing_world_def)
  have f: "filter (\<lambda>t. UserID t \<noteq> ID verified_user) (refresh_tokens login_db) = []"
    by (simp add: login_db_def old_token_def verified_user_def demo_user_def)
  have fd: "findable login_db ''old-token''"
    by (simp add: findable_def login_db_def old_token_def)
  show ?thesis
    using authService_Login_partial
      [of ?w login_db "\<lparr> req_Email = ''user@example.com'', req_Password = ''password123'' \<rparr>"
          verified_user demo_generate "''access-token''" 900 ErrDatabase demo_dto "demo_config True"]
      failing_CheckEmail_known v b g d c f fd
    by simp
qed


text \<open>
  When the random source fails, \<open>GenerateRefreshToken\<close> (line 78) returns the empty string
  and the zero time, which \<open>Verify\<close> cannot tell from a token: it stores them.
\<close>

lemma userService_Verify_issuance_failure:
  "userService_Verify (demo_world \<lparr> rand_Reader := None \<rparr>)
       (NewJWTService (demo_world \<lparr> rand_Reader := None \<rparr>) (stub_lib hs512_token) demo_service)
       login_db \<lparr> req_Email = ''user@example.com'', req_Password = ''password123'' \<rparr>
     = (login_db \<lparr> refresh_tokens := [\<lparr> UserID = ''u1'', Token = [], ExpiresAt = zero_time \<rparr>] \<rparr>,
        Inr \<lparr> AccessToken = ''header.claims.signature'', RefreshToken_str = [],
              resp_Role = ''user'' \<rparr>)"
  by code_simp



section \<open>Properties of the token refresh\<close>

lemma find_filter_neq: "find (\<lambda>t. f t = k) (filter (\<lambda>t. f t \<noteq> k) xs) = None"
  by (induction xs) auto

lemma not_findable_deleted:
  "\<not> findable (db \<lparr> refresh_tokens := filter (\<lambda>t. Token t \<noteq> tok) (refresh_tokens db) \<rparr>) tok"
  by (simp add: findable_def find_filter_neq)

lemma find_Some_props: "find P xs = Some x \<Longrightarrow> P x \<and> x \<in> set xs"
  by (induction xs) (auto split: if_splits)

lemma findable_iff: "findable db tok \<longleftrightarrow> tok \<in> Token ` set (refresh_tokens db)"
  by (auto simp add: findable_def find_None_iff)

text \<open>
  \<open>RefreshToken\<close> of the auth service, for a stored refresh token whose expiry is in the
  past and a database that answers: it deletes the row and returns
  \<open>ErrExpiredRefreshToken\<close>.
\<close>

lemma authService_RefreshToken_expired:
  assumes "find (\<lambda>t. Token t = tok) (refresh_tokens db) = Some st"
    and "ExpiresAt st < Now w 0"
    and "db_fault w Call_GetRefreshToken = None"
    and "db_fault w Call_DeleteRefreshToken = None"
  shows "authService_RefreshToken w gen config db tok =
           (db \<lparr> refresh_tokens := filter (\<lambda>t. Token t \<noteq> tok) (refresh_tokens db) \<rparr>,
            Inl ErrExpiredRefreshToken)"
    and "\<not> findable (fst (authService_RefreshToken w gen config db tok)) tok"
proof -
  show a: "authService_RefreshToken w gen config db tok =
           (db \<lparr> refresh_tokens := filter (\<lambda>t. Token t \<noteq> tok) (refresh_tokens db) \<rparr>,
            Inl ErrExpiredRefreshToken)"
    using assms
    by (simp add: authService_RefreshToken_def GetRefreshToken_def DeleteRefreshToken_def
        drop_error_def)
  show "\<not> findable (fst (authService_RefreshToken w gen config db tok)) tok"
    by (simp add: a not_findable_deleted)
qed

lemma authService_RefreshToken_expired_example:
  "authService_RefreshToken demo_world demo_generate (demo_config True) expired_db ''expired-token''
     = (expired_db \<lparr> refresh_tokens := [] \<rparr>, Inl ErrExpiredRefreshToken)"
  by code_simp

text \<open>
  Claim C3.  The claim: \<open>RefreshToken\<close> with a stored token whose expiry is in the past
  deletes the row and returns the error of the expired token.  \<open>RefreshToken\<close> of the auth
  service does (the lemma above).  \<open>RefreshToken\<close> of the user service finds the token
  expired, rolls its transaction back and returns an error with the message
  "Refresh token has expired": it deletes nothing, and the expired row is still findable
  after the call.
\<close>

theorem userService_RefreshToken_keeps_expired:
  assumes "find (\<lambda>t. Token t = tok) (refresh_tokens db) = Some st"
    and "ExpiresAt st < Now w 0"
    and "db_fault w Call_FindByToken = None"
  shows "userService_RefreshToken w jwt db tok =
           (db, Inl (ErrorNew ''Refresh token has expired''))
       \<and> findable (fst (userService_RefreshToken w jwt db tok)) tok"
proof -
  have u: "userService_RefreshToken w jwt db tok =
           (db, Inl (ErrorNew ''Refresh token has expired''))"
    using assms
    by (simp add: userService_RefreshToken_def FindByToken_def
        MESSAGE_FAILED_EXPIRED_REFRESH_TOKEN_def)
  have f: "findable db tok"
    using assms(1) by (simp add: findable_def)
  show ?thesis
    using f by (simp add: u)
qed

theorem userService_RefreshToken_keeps_expired_witness:
  "find (\<lambda>t. Token t = ''expired-token'') (refresh_tokens expired_db) = Some expired_token
   \<and> ExpiresAt expired_token < Now demo_world 0
   \<and> userService_RefreshToken demo_world demo_jwt expired_db ''expired-token''
       = (expired_db, Inl (ErrorNew ''Refresh token has expired''))
   \<and> findable expired_db ''expired-token''"
proof -
  have s: "find (\<lambda>t. Token t = ''expired-token'') (refresh_tokens expired_db) = Some expired_token"
    by (simp add: expired_db_def expired_token_def)
  have e: "ExpiresAt expired_token < Now demo_world 0"
    by (simp add: expired_token_def demo_world_def Hour_def)
  have n: "db_fault demo_world Call_FindByToken = None"
    by (simp add: demo_world_def)
  have f: "findable expired_db ''expired-token''"
    by (simp add: findable_def expired_db_def expired_token_def)
  have "userService_RefreshToken demo_world demo_jwt expired_db ''expired-token''
       = (expired_db, Inl (ErrorNew ''Refresh token has expired''))"
    using userService_RefreshToken_keeps_expired [OF s e n, of demo_jwt] by (rule conjunct1)
  then show ?thesis
    using s e f by simp
qed

text \<open>
  \<open>RefreshToken\<close> of the auth service, for a stored, unexpired refresh token \<open>tok\<close> whose user
  exists and an access token generator that succeeds.  When the database answers every
  call and the new token string is not stored yet: with the rotation flag it deletes the
  row of \<open>tok\<close>, and no other, and inserts the new token, after which \<open>tok\<close> is not findable
  and the new token is; without the flag it returns the new access token with \<open>tok\<close>
  itself and the store is unchanged.
\<close>

lemma authService_RefreshToken_rotation:
  assumes "find (\<lambda>t. Token t = tok) (refresh_tokens db) = Some st"
    and "\<not> ExpiresAt st < Now w 0"
    and "find (\<lambda>u. ID u = UserID st \<and> visible u) (users db) = Some user"
    and "db_fault w = (\<lambda>c. None)"
    and "gen (ID user) (Role user) = Inr (accessToken, expiresIn)"
    and "new_uuid w \<notin> Token ` set (refresh_tokens db)"
  shows "RotateRefreshToken config \<Longrightarrow>
            authService_RefreshToken w gen config db tok =
              (db \<lparr> refresh_tokens :=
                      filter (\<lambda>t. Token t \<noteq> tok) (refresh_tokens db)
                      @ [\<lparr> UserID = ID user, Token = new_uuid w,
                            ExpiresAt = Now w 1 + wrap_int64 (Hour * RefreshTokenExpiry config) \<rparr>] \<rparr>,
               Inr \<lparr> auth_AccessToken = accessToken, auth_RefreshToken = new_uuid w,
                     ExpiresIn = expiresIn, TokenType = ''Bearer'' \<rparr>)"
    and "RotateRefreshToken config \<Longrightarrow>
            \<not> findable (fst (authService_RefreshToken w gen config db tok)) tok
            \<and> findable (fst (authService_RefreshToken w gen config db tok)) (new_uuid w)"
    and "\<not> RotateRefreshToken config \<Longrightarrow>
            authService_RefreshToken w gen config db tok =
              (db, Inr \<lparr> auth_AccessToken = accessToken, auth_RefreshToken = tok,
                         ExpiresIn = expiresIn, TokenType = ''Bearer'' \<rparr>)"
proof -
  have nf: "db_fault w c = None" for c
    using assms(4) by simp
  have idu: "ID user = UserID st" and uin: "user \<in> set (users db)"
    using find_Some_props [OF assms(3)] by simp_all
  have fk: "ID user \<in> ID ` set (users db)"
    using uin by blast
  have fresh1: "new_uuid w \<notin> Token ` set (filter (\<lambda>t. Token t \<noteq> tok) (refresh_tokens db))"
    using assms(6) by auto
  have ne: "new_uuid w \<noteq> tok"
    using assms(6) find_Some_props [OF assms(1)] by auto
  have g: "GetUserById (db_fault w) db (UserID st) = Inr user"
    using assms(3) by (simp add: GetUserById_def nf)
  show rot: "authService_RefreshToken w gen config db tok =
              (db \<lparr> refresh_tokens :=
                      filter (\<lambda>t. Token t \<noteq> tok) (refresh_tokens db)
                      @ [\<lparr> UserID = ID user, Token = new_uuid w,
                            ExpiresAt = Now w 1 + wrap_int64 (Hour * RefreshTokenExpiry config) \<rparr>] \<rparr>,
               Inr \<lparr> auth_AccessToken = accessToken, auth_RefreshToken = new_uuid w,
                     ExpiresIn = expiresIn, TokenType = ''Bearer'' \<rparr>)"
    if "RotateRefreshToken config"
    using that assms(1,2,5) g fk fresh1
    by (simp add: authService_RefreshToken_def GetRefreshToken_def nf DeleteRefreshToken_def
        drop_error_def CreateRefreshToken_def insert_token_def Let_def)
  show "\<not> findable (fst (authService_RefreshToken w gen config db tok)) tok
            \<and> findable (fst (authService_RefreshToken w gen config db tok)) (new_uuid w)"
    if "RotateRefreshToken config"
    using ne by (auto simp add: rot [OF that] findable_iff)
  show "authService_RefreshToken w gen config db tok =
              (db, Inr \<lparr> auth_AccessToken = accessToken, auth_RefreshToken = tok,
                         ExpiresIn = expiresIn, TokenType = ''Bearer'' \<rparr>)"
    if "\<not> RotateRefreshToken config"
    using that assms(1,2,5) g
    by (simp add: authService_RefreshToken_def GetRefreshToken_def nf)
qed

lemma authService_RefreshToken_rotation_example:
  "authService_RefreshToken demo_world demo_generate (demo_config True) login_db ''old-token''
     = (login_db \<lparr> refresh_tokens :=
                     [\<lparr> UserID = ''u1'', Token = ''00000000-0000-4000-8000-000000000001'',
                        ExpiresAt = 1893456000000001000 + Hour * 168 \<rparr>] \<rparr>,
        Inr \<lparr> auth_AccessToken = ''access-token'',
              auth_RefreshToken = ''00000000-0000-4000-8000-000000000001'',
              ExpiresIn = 900, TokenType = ''Bearer'' \<rparr>)"
  "authService_RefreshToken demo_world demo_generate (demo_config False) login_db ''old-token''
     = (login_db,
        Inr \<lparr> auth_AccessToken = ''access-token'', auth_RefreshToken = ''old-token'',
              ExpiresIn = 900, TokenType = ''Bearer'' \<rparr>)"
  by code_simp+

text \<open>
  The auth service drops the error of the delete (\<open>_ = s.tokenRepo.DeleteRefreshToken\<close>)
  and has no transaction.  With the rotation flag: when the delete fails and the insert
  succeeds, the call answers with the new pair and \<open>tok\<close> is still stored, next to the new
  token; when the delete succeeds and the insert fails, the call returns the error of
  the insert, \<open>tok\<close> is gone and no token replaces it.
\<close>

lemma authService_RefreshToken_delete_fails:
  assumes "find (\<lambda>t. Token t = tok) (refresh_tokens db) = Some st"
    and "\<not> ExpiresAt st < Now w 0"
    and "find (\<lambda>u. ID u = UserID st \<and> visible u) (users db) = Some user"
    and "gen (ID user) (Role user) = Inr (accessToken, expiresIn)"
    and "new_uuid w \<notin> Token ` set (refresh_tokens db)"
    and "RotateRefreshToken config"
    and "db_fault w Call_GetRefreshToken = None"
    and "db_fault w Call_GetUserById = None"
    and "db_fault w Call_DeleteRefreshToken = Some err"
    and "db_fault w Call_CreateRefreshToken = None"
  shows "authService_RefreshToken w gen config db tok =
           (db \<lparr> refresh_tokens :=
                   refresh_tokens db
                   @ [\<lparr> UserID = ID user, Token = new_uuid w,
                         ExpiresAt = Now w 1 + wrap_int64 (Hour * RefreshTokenExpiry config) \<rparr>] \<rparr>,
            Inr \<lparr> auth_AccessToken = accessToken, auth_RefreshToken = new_uuid w,
                  ExpiresIn = expiresIn, TokenType = ''Bearer'' \<rparr>)"
    and "findable (fst (authService_RefreshToken w gen config db tok)) tok"
proof -
  have uin: "user \<in> set (users db)"
    using find_Some_props [OF assms(3)] by simp
  have fk: "ID user \<in> ID ` set (users db)"
    using uin by blast
  have g: "GetUserById (db_fault w) db (UserID st) = Inr user"
    using assms(3,8) by (simp add: GetUserById_def)
  show a: "authService_RefreshToken w gen config db tok =
           (db \<lparr> refresh_tokens :=
                   refresh_tokens db
                   @ [\<lparr> UserID = ID user, Token = new_uuid w,
                         ExpiresAt = Now w 1 + wrap_int64 (Hour * RefreshTokenExpiry config) \<rparr>] \<rparr>,
            Inr \<lparr> auth_AccessToken = accessToken, auth_RefreshToken = new_uuid w,
                  ExpiresIn = expiresIn, TokenType = ''Bearer'' \<rparr>)"
    using assms(1,2,4,5,6,7,9,10) g fk
    by (simp add: authService_RefreshToken_def GetRefreshToken_def DeleteRefreshToken_def
        drop_error_def CreateRefreshToken_def insert_token_def Let_def)
  have "tok \<in> Token ` set (refresh_tokens db)"
    using find_Some_props [OF assms(1)] by auto
  then show "findable (fst (authService_RefreshToken w gen config db tok)) tok"
    by (simp add: a findable_iff)
qed

lemma authService_RefreshToken_insert_fails:
  assumes "find (\<lambda>t. Token t = tok) (refresh_tokens db) = Some st"
    and "\<not> ExpiresAt st < Now w 0"
    and "find (\<lambda>u. ID u = UserID st \<and> visible u) (users db) = Some user"
    and "gen (ID user) (Role user) = Inr (accessToken, expiresIn)"
    and "RotateRefreshToken config"
    and "db_fault w Call_GetRefreshToken = None"
    and "db_fault w Call_GetUserById = None"
    and "db_fault w Call_DeleteRefreshToken = None"
    and "db_fault w Call_CreateRefreshToken = Some err"
  shows "authService_RefreshToken w gen config db tok =
           (db \<lparr> refresh_tokens := filter (\<lambda>t. Token t \<noteq> tok) (refresh_tokens db) \<rparr>,
            Inl err)"
    and "\<not> findable (fst (authService_RefreshToken w gen config db tok)) tok"
proof -
  have g: "GetUserById (db_fault w) db (UserID st) = Inr user"
    using assms(3,7) by (simp add: GetUserById_def)
  show a: "authService_RefreshToken w gen config db tok =
           (db \<lparr> refresh_tokens := filter (\<lambda>t. Token t \<noteq> tok) (refresh_tokens db) \<rparr>,
            Inl err)"
    using assms(1,2,4,5,6,8,9) g
    by (simp add: authService_RefreshToken_def GetRefreshToken_def DeleteRefreshToken_def
        drop_error_def CreateRefreshToken_def Let_def)
  show "\<not> findable (fst (authService_RefreshToken w gen config db tok)) tok"
    by (simp add: a not_findable_deleted)
qed

lemma authService_RefreshToken_failure_examples:
  "authService_RefreshToken (failing_world [Call_DeleteRefreshToken]) demo_generate
       (demo_config True) login_db ''old-token''
     = (login_db \<lparr> refresh_tokens :=
                     [old_token,
                      \<lparr> UserID = ''u1'', Token = ''00000000-0000-4000-8000-000000000001'',
                        ExpiresAt = 1893456000000001000 + Hour * 168 \<rparr>] \<rparr>,
        Inr \<lparr> auth_AccessToken = ''access-token'',
              auth_RefreshToken = ''00000000-0000-4000-8000-000000000001'',
              ExpiresIn = 900, TokenType = ''Bearer'' \<rparr>)"
  "authService_RefreshToken (failing_world [Call_CreateRefreshToken]) demo_generate
       (demo_config True) login_db ''old-token''
     = (login_db \<lparr> refresh_tokens := [] \<rparr>, Inl ErrDatabase)"
  by code_simp+

text \<open>
  The expiry of the new token is an \<open>int64\<close> product: for a configured number of hours
  from \<open>2562048\<close> on (292 years) it wraps around, and the new token is stored with an expiry
  in the past.
\<close>

lemma wrap_int64_in_range:
  "- (2 ^ 63) \<le> x \<Longrightarrow> x < 2 ^ 63 \<Longrightarrow> wrap_int64 x = x"
  by (simp add: wrap_int64_def)

lemma RefreshTokenExpiry_wraps:
  "wrap_int64 (Hour * 168) = Hour * 168"
  "wrap_int64 (Hour * 2562047) = Hour * 2562047"
  "wrap_int64 (Hour * 2562048) = - 9223371273709551616"
  by (simp_all add: wrap_int64_def Hour_def)

text \<open>
  Claim C2.  The claim: \<open>RefreshToken\<close> with a stored, unexpired token \<open>tok\<close> deletes exactly
  \<open>tok\<close> and stores one new token when the rotation flag is enabled, and returns \<open>tok\<close>
  itself and changes no row of the table when the flag is disabled.  \<open>RefreshToken\<close> of the
  auth service reads the flag (the lemmas above).  \<open>RefreshToken\<close> of the user service
  reads no flag: whatever the configuration, it deletes every refresh token of the user
  (\<open>DeleteByUserID\<close>), stores a new one and returns the new string.  So no token \<open>other\<close> of
  the user, \<open>tok\<close> or another, is findable after the call, unless it has the string of the
  new token.  (The token strings of a store are distinct: the column has a unique index.)
\<close>

theorem userService_RefreshToken_always_rotates:
  assumes "find (\<lambda>t. Token t = tok) (refresh_tokens db) = Some st"
    and "\<not> ExpiresAt st < Now w 0"
    and "find (\<lambda>u. ID u = UserID st \<and> visible u) (users db) = Some user"
    and "db_fault w = (\<lambda>c. None)"
    and "GenerateRefreshToken jwt = (refreshTokenString, expiresAt)"
    and "refreshTokenString \<notin> Token ` set (filter (\<lambda>t. UserID t \<noteq> ID user) (refresh_tokens db))"
    and "distinct (map Token (refresh_tokens db))"
    and "other \<in> set (refresh_tokens db)"
    and "UserID other = ID user"
    and "Token other \<noteq> refreshTokenString"
  shows "userService_RefreshToken w jwt db tok =
            (db \<lparr> refresh_tokens :=
                    filter (\<lambda>t. UserID t \<noteq> ID user) (refresh_tokens db)
                    @ [\<lparr> UserID = ID user, Token = refreshTokenString, ExpiresAt = expiresAt \<rparr>] \<rparr>,
             Inr \<lparr> AccessToken = GenerateAccessToken jwt (ID user) (Role user),
                   RefreshToken_str = refreshTokenString, resp_Role = Role user \<rparr>)
       \<and> \<not> findable (fst (userService_RefreshToken w jwt db tok)) (Token other)"
proof -
  have nf: "db_fault w c = None" for c
    using assms(4) by simp
  have uin: "user \<in> set (users db)"
    using find_Some_props [OF assms(3)] by simp
  have fk: "ID user \<in> ID ` set (users db)"
    using uin by blast
  have g: "GetUserById (db_fault w) db (UserID st) = Inr user"
    using assms(3) by (simp add: GetUserById_def nf)
  have usr: "userService_RefreshToken w jwt db tok =
            (db \<lparr> refresh_tokens :=
                    filter (\<lambda>t. UserID t \<noteq> ID user) (refresh_tokens db)
                    @ [\<lparr> UserID = ID user, Token = refreshTokenString, ExpiresAt = expiresAt \<rparr>] \<rparr>,
             Inr \<lparr> AccessToken = GenerateAccessToken jwt (ID user) (Role user),
                   RefreshToken_str = refreshTokenString, resp_Role = Role user \<rparr>)"
    using assms(1,2,5,6) g fk
    by (simp add: userService_RefreshToken_def FindByToken_def nf DeleteByUserID_def
        Create_def insert_token_def Let_def)
  have inj: "inj_on Token (set (refresh_tokens db))"
    using assms(7) by (simp add: distinct_map)
  have gone: "Token other \<notin> Token ` set (filter (\<lambda>t. UserID t \<noteq> ID user) (refresh_tokens db))"
  proof
    assume "Token other \<in> Token ` set (filter (\<lambda>t. UserID t \<noteq> ID user) (refresh_tokens db))"
    then obtain t where t: "t \<in> set (refresh_tokens db)" "UserID t \<noteq> ID user"
      "Token other = Token t" by auto
    have "other = t"
      using inj t(3) assms(8) t(1) by (rule inj_onD)
    with t(2) assms(9) show False by simp
  qed
  show ?thesis
    using gone assms(10) by (simp add: usr findable_iff)
qed

theorem userService_RefreshToken_always_rotates_witness:
  "findable two_token_db ''old-token''
   \<and> findable two_token_db ''other-token''
   \<and> userService_RefreshToken demo_world demo_jwt two_token_db ''old-token''
     = (two_token_db \<lparr> refresh_tokens :=
                     [\<lparr> UserID = ''u1'', Token = ''mock-refresh-token'',
                        ExpiresAt = 1893456000000000000 + Hour * 24 \<rparr>] \<rparr>,
        Inr \<lparr> AccessToken = ''mock-access-token'', RefreshToken_str = ''mock-refresh-token'',
              resp_Role = ''user'' \<rparr>)
   \<and> \<not> findable (fst (userService_RefreshToken demo_world demo_jwt two_token_db ''old-token''))
         ''other-token''"
proof -
  have h1: "find (\<lambda>t. Token t = ''old-token'') (refresh_tokens two_token_db) = Some old_token"
    by (simp add: two_token_db_def old_token_def)
  have h2: "\<not> ExpiresAt old_token < Now demo_world 0"
    by (simp add: old_token_def demo_world_def Hour_def)
  have h3: "find (\<lambda>u. ID u = UserID old_token \<and> visible u) (users two_token_db) = Some verified_user"
    by (simp add: two_token_db_def old_token_def verified_user_def demo_user_def visible_def)
  have h4: "db_fault demo_world = (\<lambda>c. None)"
    by (simp add: demo_world_def)
  have h5: "GenerateRefreshToken demo_jwt = (''mock-refresh-token'', 1893456000000000000 + Hour * 24)"
    by (simp add: demo_jwt_def)
  have h6: "''mock-refresh-token'' \<notin>
      Token ` set (filter (\<lambda>t. UserID t \<noteq> ID verified_user) (refresh_tokens two_token_db))"
    by (simp add: two_token_db_def old_token_def other_token_def verified_user_def demo_user_def)
  have h7: "distinct (map Token (refresh_tokens two_token_db))"
    by (simp add: two_token_db_def old_token_def other_token_def)
  have h8: "other_token \<in> set (refresh_tokens two_token_db)"
    by (simp add: two_token_db_def)
  have h9: "UserID other_token = ID verified_user"
    by (simp add: other_token_def verified_user_def demo_user_def)
  have h10: "Token other_token \<noteq> ''mock-refresh-token''"
    by (simp add: other_token_def)
  have v: "ID verified_user = ''u1''" "Role verified_user = ''user''"
    by (simp_all add: verified_user_def demo_user_def)
  have f: "filter (\<lambda>t. UserID t \<noteq> ''u1'') (refresh_tokens two_token_db) = []"
    by (simp add: two_token_db_def old_token_def other_token_def)
  have g: "GenerateAccessToken demo_jwt ''u1'' ''user'' = ''mock-access-token''"
    by (simp add: demo_jwt_def)
  have o: "Token other_token = ''other-token''"
    by (simp add: other_token_def)
  have fd: "findable two_token_db ''old-token''" "findable two_token_db ''other-token''"
    by (simp_all add: findable_def two_token_db_def old_token_def other_token_def)
  note r = userService_RefreshToken_always_rotates [OF h1 h2 h3 h4 h5 h6 h7 h8 h9 h10]
  have 1: "userService_RefreshToken demo_world demo_jwt two_token_db ''old-token''
     = (two_token_db \<lparr> refresh_tokens :=
                     [\<lparr> UserID = ''u1'', Token = ''mock-refresh-token'',
                        ExpiresAt = 1893456000000000000 + Hour * 24 \<rparr>] \<rparr>,
        Inr \<lparr> AccessToken = ''mock-access-token'', RefreshToken_str = ''mock-refresh-token'',
              resp_Role = ''user'' \<rparr>)"
    using r by (simp add: v f g)
  have 2: "\<not> findable (fst (userService_RefreshToken demo_world demo_jwt two_token_db ''old-token''))
         ''other-token''"
    using r [THEN conjunct2] unfolding o .
  show ?thesis
    using fd 1 2 by (simp only: simp_thms)
qed


end
